theory Spec2Isabelle
  imports Main "HOL-Library.Word" "HOL-Library.Multiset"
begin

section \<open>JavaScript values and strings\<close>

text \<open>
  The request bodies, token payloads and JSON responses of the service are JavaScript
  values. The model covers the values that \<open>JSON.parse\<close> produces, together with
  \<open>undefined\<close> (an absent property) and \<open>NaN\<close> (what \<open>parseInt\<close> returns on a
  non-numeric string). Numbers are the integer-valued ones that JavaScript prints in
  plain decimal notation. A string is a list of characters, each standing for one code
  unit in the Latin-1 range.
\<close>

datatype jsval =
    JUndefined
  | JNull
  | JBool bool
  | JNum int
  | JNaN
  | JStr string
  | JArr "jsval list"
  | JObj "(string \<times> jsval) list"

datatype js_error = TypeError

text \<open>
  White space as \<open>String.prototype.trim\<close> sees it, within Latin-1: TAB, LF, VT, FF, CR,
  SP and NBSP.
\<close>

definition is_space :: "char \<Rightarrow> bool" where
  "is_space c = (of_char c \<in> {9, 10, 11, 12, 13, 32, 160 :: nat})"

definition trim :: "string \<Rightarrow> string" where
  "trim s = rev (dropWhile is_space (rev (dropWhile is_space s)))"

text \<open>\<open>s.split(",")\<close>: the segments between the separators; never an empty list.\<close>

fun split_on :: "char \<Rightarrow> string \<Rightarrow> string list" where
  "split_on sep [] = [[]]"
| "split_on sep (c # cs) =
     (if c = sep then [] # split_on sep cs
      else (case split_on sep cs of
              [] \<Rightarrow> [[c]]
            | seg # segs \<Rightarrow> (c # seg) # segs))"

text \<open>\<open>segs.join(",")\<close> on strings.\<close>

fun join_with :: "char \<Rightarrow> string list \<Rightarrow> string" where
  "join_with sep [] = []"
| "join_with sep [s] = s"
| "join_with sep (s # t # ts) = s @ sep # join_with sep (t # ts)"

text \<open>Decimal digits of a natural number, as \<open>Number.prototype.toString\<close> prints them.\<close>

definition digit_char :: "nat \<Rightarrow> char" where
  "digit_char d = ''0123456789'' ! d"

function dec_nat :: "nat \<Rightarrow> string" where
  "dec_nat n = (if n < 10 then [digit_char n] else dec_nat (n div 10) @ [digit_char (n mod 10)])"
  by pat_completeness auto
termination
  by (relation "measure id") auto

definition dec_int :: "int \<Rightarrow> string" where
  "dec_int i = (if i < 0 then CHR ''-'' # dec_nat (nat (- i)) else dec_nat (nat i))"

text \<open>
  \<open>String(v)\<close>. On an object the conversion calls the object's \<open>toString\<close>; an object
  parsed from JSON that has an own property of that name holds a value there that cannot
  be called, \<open>valueOf\<close> gives back the object, and the conversion throws a
  \<open>TypeError\<close>. Without such a property the inherited method prints
  \<open>[object Object]\<close>. An array prints its elements joined by commas, \<open>null\<close> and
  \<open>undefined\<close> elements as empty strings.
\<close>

fun js_String :: "jsval \<Rightarrow> js_error + string"
  and js_join :: "jsval list \<Rightarrow> js_error + string"
  and js_join_elem :: "jsval \<Rightarrow> js_error + string" where
  "js_String JUndefined = Inr ''undefined''"
| "js_String JNull = Inr ''null''"
| "js_String (JBool b) = Inr (if b then ''true'' else ''false'')"
| "js_String (JNum n) = Inr (dec_int n)"
| "js_String JNaN = Inr ''NaN''"
| "js_String (JStr s) = Inr s"
| "js_String (JArr xs) = js_join xs"
| "js_String (JObj kvs) =
     (if ''toString'' \<in> set (map fst kvs) then Inl TypeError else Inr ''[object Object]'')"
| "js_join [] = Inr []"
| "js_join [x] = js_join_elem x"
| "js_join (x # y # ys) =
     (case js_join_elem x of
        Inl e \<Rightarrow> Inl e
      | Inr s \<Rightarrow> (case js_join (y # ys) of
                   Inl e \<Rightarrow> Inl e
                 | Inr r \<Rightarrow> Inr (s @ CHR '','' # r)))"
| "js_join_elem JUndefined = Inr []"
| "js_join_elem JNull = Inr []"
| "js_join_elem (JBool b) = js_String (JBool b)"
| "js_join_elem (JNum n) = js_String (JNum n)"
| "js_join_elem JNaN = js_String JNaN"
| "js_join_elem (JStr s) = js_String (JStr s)"
| "js_join_elem (JArr xs) = js_String (JArr xs)"
| "js_join_elem (JObj kvs) = js_String (JObj kvs)"

section \<open>The normalizer\<close>

text \<open>
  \<open>value.map((t) => String(t).trim())\<close>: the first element whose conversion throws
  ends the whole call.
\<close>

fun map_String_trim :: "jsval list \<Rightarrow> js_error + string list" where
  "map_String_trim [] = Inr []"
| "map_String_trim (x # xs) =
     (case js_String x of
        Inl e \<Rightarrow> Inl e
      | Inr s \<Rightarrow> (case map_String_trim xs of
                   Inl e \<Rightarrow> Inl e
                 | Inr ss \<Rightarrow> Inr (trim s # ss)))"

text \<open>\<open>.filter(Boolean)\<close> on strings keeps the non-empty ones.\<close>

definition filter_Boolean :: "string list \<Rightarrow> string list" where
  "filter_Boolean ss = filter (\<lambda>s. s \<noteq> []) ss"

fun normalizeTech :: "jsval \<Rightarrow> js_error + string list" where
  "normalizeTech (JArr xs) =
     (case map_String_trim xs of
        Inl e \<Rightarrow> Inl e
      | Inr ss \<Rightarrow> Inr (filter_Boolean ss))"
| "normalizeTech (JStr s) = Inr (filter_Boolean (map trim (split_on CHR '','' s)))"
| "normalizeTech v = Inr []"

text \<open>Truthiness, and reading a property of an object parsed from JSON.\<close>

fun truthy :: "jsval \<Rightarrow> bool" where
  "truthy JUndefined = False"
| "truthy JNull = False"
| "truthy (JBool b) = b"
| "truthy (JNum n) = (n \<noteq> 0)"
| "truthy JNaN = False"
| "truthy (JStr s) = (s \<noteq> [])"
| "truthy (JArr xs) = True"
| "truthy (JObj kvs) = True"

definition js_get :: "(string \<times> jsval) list \<Rightarrow> string \<Rightarrow> jsval" where
  "js_get kvs k = (case map_of (rev kvs) k of None \<Rightarrow> JUndefined | Some v \<Rightarrow> v)"

text \<open>ASCII case folding, as a case-insensitive match applies it to these strings.\<close>

definition lower_char :: "char \<Rightarrow> char" where
  "lower_char c =
     (case map_of (zip ''ABCDEFGHIJKLMNOPQRSTUVWXYZ'' ''abcdefghijklmnopqrstuvwxyz'') c of
        None \<Rightarrow> c
      | Some l \<Rightarrow> l)"

definition starts_with :: "string \<Rightarrow> string \<Rightarrow> bool" where
  "starts_with pre s = (take (length pre) s = pre)"

section \<open>Image ingestion\<close>

type_synonym byte = "8 word"

text \<open>The file that multer's memory storage hands over: declared type and bytes.\<close>

record upload =
  mimetype :: string
  buffer :: "byte list"

text \<open>\<open>buffer.toString("base64")\<close>: the standard alphabet, padded with \<open>=\<close>.\<close>

definition b64_char :: "nat \<Rightarrow> char" where
  "b64_char n =
     ''ABCDEFGHIJKLMNOPQRSTUVWXYZabcdefghijklmnopqrstuvwxyz0123456789+/'' ! n"

fun base64 :: "byte list \<Rightarrow> string" where
  "base64 [] = []"
| "base64 [a] =
     (let n = unat a in
      [b64_char (n div 4), b64_char ((n mod 4) * 16), CHR ''='', CHR ''=''])"
| "base64 [a, b] =
     (let n = unat a * 256 + unat b in
      [b64_char (n div 1024), b64_char ((n div 16) mod 64), b64_char ((n mod 16) * 4),
       CHR ''=''])"
| "base64 (a # b # c # rest) =
     (let n = unat a * 65536 + unat b * 256 + unat c in
      [b64_char (n div 262144), b64_char ((n div 4096) mod 64), b64_char ((n div 64) mod 64),
       b64_char (n mod 64)] @ base64 rest)"

text \<open>\<open>limits: { fileSize: 4 * 1024 * 1024 }\<close>\<close>

definition fileSize :: nat where
  "fileSize = 4 * 1024 * 1024"

text \<open>\<open>/^image\/(jpe?g|png|webp)$/i.test(file.mimetype)\<close>\<close>

definition mimetype_test :: "string \<Rightarrow> bool" where
  "mimetype_test m =
     (map lower_char m \<in> set [''image/jpg'', ''image/jpeg'', ''image/png'', ''image/webp''])"

text \<open>The \<open>fileFilter\<close> callback: \<open>Inl\<close> is \<open>cb(new Error(...))\<close>, \<open>Inr True\<close> is \<open>cb(null, true)\<close>.\<close>

definition fileFilter :: "upload option \<Rightarrow> string + bool" where
  "fileFilter file =
     (case file of
        None \<Rightarrow> Inr True
      | Some f \<Rightarrow>
          if \<not> mimetype_test (mimetype f) then Inl ''Format image invalide (JPEG/PNG/WebP)''
          else Inr True)"

text \<open>
  \<open>upload.single("image")\<close> on the file part of the request, if there is one: the filter
  runs on the part's header, then the bytes are read and a file with more than
  \<open>fileSize\<close> bytes is refused. \<open>Inl\<close> is the error handed to \<open>next\<close>; \<open>Inr\<close> is
  \<open>req.file\<close>.
\<close>

definition upload_single :: "upload option \<Rightarrow> string + upload option" where
  "upload_single part =
     (case part of
        None \<Rightarrow> Inr None
      | Some f \<Rightarrow>
          (case fileFilter (Some f) of
             Inl msg \<Rightarrow> Inl msg
           | Inr keep \<Rightarrow>
               if \<not> keep then Inr None
               else if length (buffer f) > fileSize then Inl ''File too large''
               else Inr (Some f)))"

definition bufferToDataUrl :: "upload option \<Rightarrow> string option" where
  "bufferToDataUrl file =
     (case file of
        None \<Rightarrow> None
      | Some f \<Rightarrow>
          (let mime = (if mimetype f = [] then ''image/jpeg'' else mimetype f);
               b64 = base64 (buffer f)
           in Some (''data:'' @ mime @ '';base64,'' @ b64)))"

section \<open>Collaborators\<close>

text \<open>
  The libraries the routes call are parameters of the model. \<open>jwt_verify token secret\<close>
  is \<open>jwt.verify\<close>: the decoded payload (an object, or a string when the token's payload
  is not JSON), or \<open>None\<close> when it throws. \<open>isMongoId\<close>, \<open>isURL\<close> and \<open>toBoolean\<close> are
  the validation library's functions on strings, and \<open>stringify\<close> is the string it makes of
  a field value that is not a string before a standard validator or sanitizer sees it.
  \<open>validator_version\<close> selects the shape of the library's error objects.
  \<open>store_regex pattern\<close> is the store's \<open>$regex\<close> with option \<open>i\<close> on a pattern outside
  the fragment modelled below: the set of strings it matches, or \<open>None\<close> when the store
  rejects the pattern.
\<close>

datatype jwt_payload = PayloadObj "(string \<times> jsval) list" | PayloadStr string

datatype ev_version = V6 | V7

record deps =
  jwt_verify :: "string \<Rightarrow> string \<Rightarrow> jwt_payload option"
  JWT_SECRET :: "string option"
  isMongoId :: "string \<Rightarrow> bool"
  isURL :: "string \<Rightarrow> bool"
  toBoolean :: "string \<Rightarrow> bool"
  stringify :: "jsval \<Rightarrow> string"
  validator_version :: ev_version
  store_regex :: "string \<Rightarrow> (string \<Rightarrow> bool) option"

section \<open>Projects and the document store\<close>

text \<open>
  Modelled from the spec: the Project schema and the store's operations
  (\<open>src/models/Project.js\<close> is not among the sources). A project has the fields of the
  spec's data model; the store is the list of its documents in insertion order, and every
  call that reaches it is logged.
\<close>

record project =
  proj_id :: string
  title :: string
  description :: string
  tech :: "string list"
  githubUrl :: string
  demoUrl :: string
  featured :: bool
  order :: int
  coverImage :: "string option"
  createdAt :: int

datatype db_call =
    Call_find
  | Call_findById string
  | Call_create
  | Call_save string
  | Call_findByIdAndDelete string

record db =
  docs :: "project list"
  calls :: "db_call list"

section \<open>Responses\<close>

text \<open>
  An error handed to \<open>next\<close> reaches the application's error handler, which answers
  \<open>err.status || 500\<close> with the error's message; none of the errors below carries a
  status: an \<open>Error\<close> with a message, a JavaScript error, the store's error on an
  identifier it cannot cast, and the store's error on a pattern it rejects.
\<close>

datatype app_error = Err string | JsError js_error | CastError | RegexError

datatype rbody =
    Json jsval
  | Doc project
  | Docs "project list"
  | ErrorMessage app_error

record response =
  status :: nat
  payload :: rbody

definition message_response :: "nat \<Rightarrow> string \<Rightarrow> response" where
  "message_response code msg = \<lparr>status = code, payload = Json (JObj [(''message'', JStr msg)])\<rparr>"

definition error_handler :: "app_error \<Rightarrow> response" where
  "error_handler e = \<lparr>status = 500, payload = ErrorMessage e\<rparr>"

section \<open>The bearer-token check\<close>

text \<open>
  \<open>auth = req.headers.authorization || ""\<close> and
  \<open>token = auth.startsWith("Bearer ") ? auth.slice(7) : null\<close>.
\<close>

definition bearer_token :: "string option \<Rightarrow> string option" where
  "bearer_token hdr =
     (let auth = (case hdr of None \<Rightarrow> [] | Some h \<Rightarrow> h)
      in if starts_with ''Bearer '' auth then Some (drop 7 auth) else None)"

text \<open>\<open>process.env.JWT_SECRET || "dev_secret"\<close>\<close>

definition secret :: "deps \<Rightarrow> string" where
  "secret D = (case JWT_SECRET D of None \<Rightarrow> ''dev_secret''
               | Some s \<Rightarrow> if s = [] then ''dev_secret'' else s)"

text \<open>
  Reading a property of the decoded payload gives an own property's value, or what the
  payload inherits under that name: a method of \<open>Object.prototype\<close> for an object, of
  \<open>String.prototype\<close> (and through it \<open>Object.prototype\<close>) for a string, or the
  prototype itself under \<open>__proto__\<close>. What is inherited is truthy. The own properties
  of a string, \<open>length\<close> and the indices, are not among the names the check reads.
\<close>

datatype js_prop = Own jsval | Inherited string

definition object_prototype :: "string list" where
  "object_prototype =
     [''constructor'', ''hasOwnProperty'', ''isPrototypeOf'', ''propertyIsEnumerable'',
      ''toLocaleString'', ''toString'', ''valueOf'', ''__defineGetter__'', ''__defineSetter__'',
      ''__lookupGetter__'', ''__lookupSetter__'', ''__proto__'']"

definition string_prototype :: "string list" where
  "string_prototype =
     [''anchor'', ''at'', ''big'', ''blink'', ''bold'', ''charAt'', ''charCodeAt'', ''codePointAt'',
      ''concat'', ''endsWith'', ''fixed'', ''fontcolor'', ''fontsize'', ''includes'', ''indexOf'',
      ''isWellFormed'', ''italics'', ''lastIndexOf'', ''link'', ''localeCompare'', ''match'',
      ''matchAll'', ''normalize'', ''padEnd'', ''padStart'', ''repeat'', ''replace'', ''replaceAll'',
      ''search'', ''slice'', ''small'', ''split'', ''startsWith'', ''strike'', ''sub'', ''substr'',
      ''substring'', ''sup'', ''toLocaleLowerCase'', ''toLocaleUpperCase'', ''toLowerCase'',
      ''toUpperCase'', ''toWellFormed'', ''trim'', ''trimEnd'', ''trimLeft'', ''trimRight'',
      ''trimStart'']"

definition decoded_prop :: "jwt_payload \<Rightarrow> string \<Rightarrow> js_prop" where
  "decoded_prop decoded k =
     (case decoded of
        PayloadObj kvs \<Rightarrow>
          if k \<in> set (map fst kvs) then Own (js_get kvs k)
          else if k \<in> set object_prototype then Inherited k
          else Own JUndefined
      | PayloadStr s \<Rightarrow>
          if k \<in> set string_prototype \<or> k \<in> set object_prototype then Inherited k
          else Own JUndefined)"

definition truthy_prop :: "js_prop \<Rightarrow> bool" where
  "truthy_prop p = (case p of Own v \<Rightarrow> truthy v | Inherited k \<Rightarrow> True)"

definition prop_or :: "js_prop \<Rightarrow> js_prop \<Rightarrow> js_prop" where
  "prop_or a b = (if truthy_prop a then a else b)"

text \<open>\<open>Inl\<close> is the response that ends the request; \<open>Inr\<close> is \<open>req.user.id\<close> after \<open>next()\<close>.\<close>

definition verifyToken :: "deps \<Rightarrow> string option \<Rightarrow> response + js_prop" where
  "verifyToken D hdr =
     (case bearer_token hdr of
        None \<Rightarrow> Inl (message_response 401 ''Token manquant'')
      | Some token \<Rightarrow>
          if token = [] then Inl (message_response 401 ''Token manquant'')
          else (case jwt_verify D token (secret D) of
                  None \<Rightarrow> Inl (message_response 401 ''Token invalide'')
                | Some decoded \<Rightarrow>
                    Inr (prop_or (prop_or (prop_or (decoded_prop decoded ''id'')
                                                   (decoded_prop decoded ''_id''))
                                          (decoded_prop decoded ''sub''))
                                 (Own JNull))))"

section \<open>Validation chains\<close>

datatype location = Body | Params

datatype optionality = Required | Optional | OptionalFalsy

datatype step =
    IsString
  | Trim
  | IsLength nat nat
  | IsURL
  | IsMongoId
  | ToBoolean
  | ToInt
  | CustomSanitizer "jsval \<Rightarrow> js_error + jsval"

record rule =
  rule_location :: location
  rule_field :: string
  rule_optional :: optionality
  rule_steps :: "step list"

record verror =
  err_location :: location
  err_path :: string
  err_value :: jsval
  err_msg :: string

text \<open>The request data the chains read and write: \<open>req.params\<close> and \<open>req.body\<close>.\<close>

record fields =
  in_params :: "string \<Rightarrow> jsval"
  in_body :: "string \<Rightarrow> jsval"

definition get_field :: "fields \<Rightarrow> location \<Rightarrow> string \<Rightarrow> jsval" where
  "get_field F loc k = (case loc of Body \<Rightarrow> in_body F k | Params \<Rightarrow> in_params F k)"

definition set_field :: "fields \<Rightarrow> location \<Rightarrow> string \<Rightarrow> jsval \<Rightarrow> fields" where
  "set_field F loc k v =
     (case loc of
        Body \<Rightarrow> F\<lparr>in_body := (in_body F)(k := v)\<rparr>
      | Params \<Rightarrow> F\<lparr>in_params := (in_params F)(k := v)\<rparr>)"

text \<open>
  A standard validator or sanitizer works on strings: on the string form of the value,
  or of each element when the value is an array.
\<close>

definition ev_toString :: "deps \<Rightarrow> jsval \<Rightarrow> string" where
  "ev_toString D v = (case v of JStr s \<Rightarrow> s | _ \<Rightarrow> stringify D v)"

definition values_of :: "jsval \<Rightarrow> jsval list" where
  "values_of v = (case v of JArr xs \<Rightarrow> xs | _ \<Rightarrow> [v])"

definition std_validate :: "deps \<Rightarrow> (string \<Rightarrow> bool) \<Rightarrow> jsval \<Rightarrow> jsval list" where
  "std_validate D ok v = filter (\<lambda>x. \<not> ok (ev_toString D x)) (values_of v)"

definition std_sanitize :: "deps \<Rightarrow> (string \<Rightarrow> jsval) \<Rightarrow> jsval \<Rightarrow> jsval" where
  "std_sanitize D f v =
     (case v of
        JArr xs \<Rightarrow> JArr (map (\<lambda>x. f (ev_toString D x)) xs)
      | _ \<Rightarrow> f (ev_toString D v))"

text \<open>
  \<open>parseInt(str, 10)\<close>: leading white space, an optional sign, then the longest run of
  digits; \<open>NaN\<close> when there is none.
\<close>

definition is_digit :: "char \<Rightarrow> bool" where
  "is_digit c = (48 \<le> (of_char c :: nat) \<and> (of_char c :: nat) \<le> 57)"

definition digits_value :: "string \<Rightarrow> nat" where
  "digits_value ds = foldl (\<lambda>acc c. 10 * acc + (of_char c - 48)) 0 ds"

definition parseInt :: "string \<Rightarrow> jsval" where
  "parseInt s =
     (let t = dropWhile is_space s;
          neg = (t \<noteq> [] \<and> hd t = CHR ''-'');
          u = (if t \<noteq> [] \<and> (hd t = CHR ''-'' \<or> hd t = CHR ''+'') then tl t else t);
          ds = takeWhile is_digit u
      in if ds = [] then JNaN
         else JNum (if neg then - int (digits_value ds) else int (digits_value ds)))"

text \<open>
  One step of a chain on the current value: the values a validator reports, and the
  value a sanitizer leaves. Only a custom sanitizer can throw.
\<close>

fun run_step :: "deps \<Rightarrow> step \<Rightarrow> jsval \<Rightarrow> js_error + (jsval list \<times> jsval)" where
  "run_step D IsString v = Inr ((case v of JStr s \<Rightarrow> [] | _ \<Rightarrow> [v]), v)"
| "run_step D Trim v = Inr ([], std_sanitize D (\<lambda>s. JStr (trim s)) v)"
| "run_step D (IsLength lo hi) v =
     Inr (std_validate D (\<lambda>s. lo \<le> length s \<and> length s \<le> hi) v, v)"
| "run_step D IsURL v = Inr (std_validate D (isURL D) v, v)"
| "run_step D IsMongoId v = Inr (std_validate D (isMongoId D) v, v)"
| "run_step D ToBoolean v = Inr ([], std_sanitize D (\<lambda>s. JBool (toBoolean D s)) v)"
| "run_step D ToInt v = Inr ([], std_sanitize D parseInt v)"
| "run_step D (CustomSanitizer f) v =
     (case f v of Inl e \<Rightarrow> Inl e | Inr v' \<Rightarrow> Inr ([], v'))"

text \<open>A chain runs every step, whatever the earlier validators reported.\<close>

fun run_chain :: "deps \<Rightarrow> step list \<Rightarrow> jsval \<Rightarrow> js_error + (jsval list \<times> jsval)" where
  "run_chain D [] v = Inr ([], v)"
| "run_chain D (st # sts) v =
     (case run_step D st v of
        Inl e \<Rightarrow> Inl e
      | Inr (bad, v') \<Rightarrow>
          (case run_chain D sts v' of
             Inl e \<Rightarrow> Inl e
           | Inr (bad', v'') \<Rightarrow> Inr (bad @ bad', v'')))"

text \<open>
  \<open>optional()\<close> skips the chain on \<open>undefined\<close>, \<open>optional({ checkFalsy: true })\<close> on
  every falsy value.
\<close>

definition skipped :: "optionality \<Rightarrow> jsval \<Rightarrow> bool" where
  "skipped opt v =
     (case opt of
        Required \<Rightarrow> False
      | Optional \<Rightarrow> v = JUndefined
      | OptionalFalsy \<Rightarrow> \<not> truthy v)"

text \<open>
  A rule on the value of its field: the errors it reports and the value it leaves. A
  skipped rule reports nothing and leaves the value as it is.
\<close>

definition rule_value :: "deps \<Rightarrow> rule \<Rightarrow> jsval \<Rightarrow> js_error + (verror list \<times> jsval)" where
  "rule_value D r v =
     (if skipped (rule_optional r) v then Inr ([], v)
      else (case run_chain D (rule_steps r) v of
              Inl e \<Rightarrow> Inl e
            | Inr (bad, v') \<Rightarrow>
                Inr (map (\<lambda>x. \<lparr>err_location = rule_location r, err_path = rule_field r,
                                 err_value = x, err_msg = ''Invalid value''\<rparr>) bad,
                     v')))"

text \<open>A rule as a middleware: it reads its field of the request and writes it back.\<close>

definition run_rule :: "deps \<Rightarrow> rule \<Rightarrow> fields \<Rightarrow> js_error + (verror list \<times> fields)" where
  "run_rule D r F =
     (case rule_value D r (get_field F (rule_location r) (rule_field r)) of
        Inl e \<Rightarrow> Inl e
      | Inr (errs, v') \<Rightarrow> Inr (errs, set_field F (rule_location r) (rule_field r) v'))"

text \<open>The rules of a route are middlewares run one after the other.\<close>

fun run_rules :: "deps \<Rightarrow> rule list \<Rightarrow> fields \<Rightarrow> js_error + (verror list \<times> fields)" where
  "run_rules D [] F = Inr ([], F)"
| "run_rules D (r # rs) F =
     (case run_rule D r F of
        Inl e \<Rightarrow> Inl e
      | Inr (errs, F') \<Rightarrow>
          (case run_rules D rs F' of
             Inl e \<Rightarrow> Inl e
           | Inr (errs', F'') \<Rightarrow> Inr (errs @ errs', F'')))"

text \<open>The errors that one rule alone reports on a request.\<close>

definition rule_errors :: "deps \<Rightarrow> rule \<Rightarrow> fields \<Rightarrow> js_error + verror list" where
  "rule_errors D r F =
     (case rule_value D r (get_field F (rule_location r) (rule_field r)) of
        Inl e \<Rightarrow> Inl e
      | Inr (errs, v') \<Rightarrow> Inr errs)"

definition rule_key :: "rule \<Rightarrow> location \<times> string" where
  "rule_key r = (rule_location r, rule_field r)"

text \<open>\<open>customSanitizer(normalizeTech)\<close>: the field becomes the array of strings.\<close>

definition sanitize_tech :: "jsval \<Rightarrow> js_error + jsval" where
  "sanitize_tech v = (case normalizeTech v of Inl e \<Rightarrow> Inl e | Inr ss \<Rightarrow> Inr (JArr (map JStr ss)))"

definition createRules :: "rule list" where
  "createRules =
     [\<lparr>rule_location = Body, rule_field = ''title'', rule_optional = Required,
        rule_steps = [IsString, Trim, IsLength 2 120]\<rparr>,
      \<lparr>rule_location = Body, rule_field = ''description'', rule_optional = Required,
        rule_steps = [IsString, Trim, IsLength 10 3000]\<rparr>,
      \<lparr>rule_location = Body, rule_field = ''tech'', rule_optional = OptionalFalsy,
        rule_steps = [CustomSanitizer sanitize_tech]\<rparr>,
      \<lparr>rule_location = Body, rule_field = ''githubUrl'', rule_optional = OptionalFalsy,
        rule_steps = [IsURL]\<rparr>,
      \<lparr>rule_location = Body, rule_field = ''demoUrl'', rule_optional = OptionalFalsy,
        rule_steps = [IsURL]\<rparr>,
      \<lparr>rule_location = Body, rule_field = ''featured'', rule_optional = Optional,
        rule_steps = [ToBoolean]\<rparr>,
      \<lparr>rule_location = Body, rule_field = ''order'', rule_optional = Optional,
        rule_steps = [ToInt]\<rparr>]"

definition updateRules :: "rule list" where
  "updateRules =
     [\<lparr>rule_location = Params, rule_field = ''id'', rule_optional = Required,
        rule_steps = [IsMongoId]\<rparr>,
      \<lparr>rule_location = Body, rule_field = ''title'', rule_optional = Optional,
        rule_steps = [IsString, Trim, IsLength 2 120]\<rparr>,
      \<lparr>rule_location = Body, rule_field = ''description'', rule_optional = Optional,
        rule_steps = [IsString, Trim, IsLength 10 3000]\<rparr>,
      \<lparr>rule_location = Body, rule_field = ''tech'', rule_optional = OptionalFalsy,
        rule_steps = [CustomSanitizer sanitize_tech]\<rparr>,
      \<lparr>rule_location = Body, rule_field = ''githubUrl'', rule_optional = OptionalFalsy,
        rule_steps = [IsURL]\<rparr>,
      \<lparr>rule_location = Body, rule_field = ''demoUrl'', rule_optional = OptionalFalsy,
        rule_steps = [IsURL]\<rparr>,
      \<lparr>rule_location = Body, rule_field = ''featured'', rule_optional = Optional,
        rule_steps = [ToBoolean]\<rparr>,
      \<lparr>rule_location = Body, rule_field = ''order'', rule_optional = Optional,
        rule_steps = [ToInt]\<rparr>]"

text \<open>The rule of the routes that only take an id: \<open>param("id").isMongoId()\<close>.\<close>

definition idRules :: "rule list" where
  "idRules =
     [\<lparr>rule_location = Params, rule_field = ''id'', rule_optional = Required,
        rule_steps = [IsMongoId]\<rparr>]"

text \<open>
  An error of \<open>errors.array()\<close> as JSON. The library names the field \<open>param\<close> up to
  version 6 and \<open>path\<close> from version 7, which also adds \<open>type\<close>; a key whose value is
  \<open>undefined\<close> is left out of the JSON text.
\<close>

definition location_name :: "location \<Rightarrow> string" where
  "location_name loc = (case loc of Body \<Rightarrow> ''body'' | Params \<Rightarrow> ''params'')"

definition error_json :: "ev_version \<Rightarrow> verror \<Rightarrow> jsval" where
  "error_json ver e =
     (let value = (if err_value e = JUndefined then [] else [(''value'', err_value e)]);
          msg = [(''msg'', JStr (err_msg e))];
          loc = [(''location'', JStr (location_name (err_location e)))]
      in case ver of
           V6 \<Rightarrow> JObj (value @ msg @ [(''param'', JStr (err_path e))] @ loc)
         | V7 \<Rightarrow> JObj ([(''type'', JStr ''field'')] @ value @ msg @ [(''path'', JStr (err_path e))] @ loc))"

text \<open>\<open>handleValidation\<close>: the response when there are errors, nothing otherwise.\<close>

definition handleValidation :: "deps \<Rightarrow> verror list \<Rightarrow> response option" where
  "handleValidation D errors =
     (if errors \<noteq> [] then
        Some \<lparr>status = 400,
              payload = Json (JObj [(''message'', JStr ''Validation error''),
                                    (''errors'', JArr (map (error_json (validator_version D)) errors))])\<rparr>
      else None)"

section \<open>Store operations\<close>

text \<open>
  Modelled from the spec: the collaborator's sort. \<open>.sort({ featured: -1, order: 1,
  createdAt: -1 })\<close> compares two documents key by key, the direction \<open>1\<close> ascending and
  \<open>-1\<close> descending, \<open>false\<close> below \<open>true\<close>; documents that compare equal keep their
  stored order.
\<close>

datatype sort_key = Featured | Order | CreatedAt

definition cmp3 :: "'a::linorder \<Rightarrow> 'a \<Rightarrow> int" where
  "cmp3 a b = (if a < b then - 1 else if b < a then 1 else 0)"

fun key_cmp :: "sort_key \<Rightarrow> project \<Rightarrow> project \<Rightarrow> int" where
  "key_cmp Featured a b = cmp3 (featured a) (featured b)"
| "key_cmp Order a b = cmp3 (order a) (order b)"
| "key_cmp CreatedAt a b = cmp3 (createdAt a) (createdAt b)"

fun spec_cmp :: "(sort_key \<times> int) list \<Rightarrow> project \<Rightarrow> project \<Rightarrow> int" where
  "spec_cmp [] a b = 0"
| "spec_cmp ((k, dir) # rest) a b =
     (let c = dir * key_cmp k a b in if c \<noteq> 0 then c else spec_cmp rest a b)"

fun insert_doc :: "(sort_key \<times> int) list \<Rightarrow> project \<Rightarrow> project list \<Rightarrow> project list" where
  "insert_doc spec x [] = [x]"
| "insert_doc spec x (y # ys) =
     (if spec_cmp spec x y \<le> 0 then x # y # ys else y # insert_doc spec x ys)"

definition sort_docs :: "(sort_key \<times> int) list \<Rightarrow> project list \<Rightarrow> project list" where
  "sort_docs spec ps = foldr (insert_doc spec) ps []"

definition list_sort :: "(sort_key \<times> int) list" where
  "list_sort = [(Featured, - 1), (Order, 1), (CreatedAt, - 1)]"

text \<open>
  The collaborator's \<open>$regex\<close> with option \<open>i\<close>, for a fragment of its pattern language:
  a pattern made of ordinary characters, each matching itself in either case, and of
  \<open>.\<close>, matching any character but a line feed. The pattern matches a string when it
  matches at some position. A pattern with another metacharacter is outside the
  fragment (\<open>None\<close>): what it matches is the collaborator's \<open>store_regex\<close>.
\<close>

datatype pat_item = PChar char | PAny

definition metachars :: "char list" where
  "metachars = CHR 0x5C # ''^$.|?*+()[]{}''"

fun compile_pattern :: "string \<Rightarrow> pat_item list option" where
  "compile_pattern [] = Some []"
| "compile_pattern (c # cs) =
     (if c = CHR ''.'' then map_option (Cons PAny) (compile_pattern cs)
      else if c \<in> set metachars then None
      else map_option (Cons (PChar c)) (compile_pattern cs))"

fun item_matches :: "pat_item \<Rightarrow> char \<Rightarrow> bool" where
  "item_matches (PChar p) c = (lower_char p = lower_char c)"
| "item_matches PAny c = (c \<noteq> CHR 0x0A)"

fun match_here :: "pat_item list \<Rightarrow> string \<Rightarrow> bool" where
  "match_here [] s = True"
| "match_here (i # items) [] = False"
| "match_here (i # items) (c # cs) = (item_matches i c \<and> match_here items cs)"

fun regex_search :: "pat_item list \<Rightarrow> string \<Rightarrow> bool" where
  "regex_search items [] = match_here items []"
| "regex_search items (c # cs) = (match_here items (c # cs) \<or> regex_search items cs)"

text \<open>
  The two filters of the list route: \<open>{}\<close>, and the \<open>$or\<close> of the pattern on \<open>title\<close>, on
  \<open>description\<close> and on some element of \<open>tech\<close>.
\<close>

datatype query = All_docs | Regex_any string

definition doc_matches :: "(string \<Rightarrow> bool) \<Rightarrow> project \<Rightarrow> bool" where
  "doc_matches m p = (m (title p) \<or> m (description p) \<or> list_ex m (tech p))"

text \<open>
  The strings a pattern matches: by the fragment's matcher for a pattern of the fragment,
  by the collaborator for any other pattern.
\<close>

definition store_match :: "deps \<Rightarrow> string \<Rightarrow> (string \<Rightarrow> bool) option" where
  "store_match D pat =
     (case compile_pattern pat of
        Some items \<Rightarrow> Some (regex_search items)
      | None \<Rightarrow> store_regex D pat)"

definition logged :: "db_call \<Rightarrow> db \<Rightarrow> db" where
  "logged c d = d\<lparr>calls := calls d @ [c]\<rparr>"

definition db_find ::
  "deps \<Rightarrow> query \<Rightarrow> (sort_key \<times> int) list \<Rightarrow> db \<Rightarrow> (app_error + project list) \<times> db" where
  "db_find D q spec d =
     (case q of
        All_docs \<Rightarrow> (Inr (sort_docs spec (docs d)), logged Call_find d)
      | Regex_any pat \<Rightarrow>
          (case store_match D pat of
             None \<Rightarrow> (Inl RegexError, logged Call_find d)
           | Some m \<Rightarrow>
               (Inr (sort_docs spec (filter (doc_matches m) (docs d))), logged Call_find d)))"

text \<open>
  The store casts the identifier of a lookup to its identifier type and throws on a
  string that is not 24 hexadecimal digits. A stored identifier is one the store made, so
  the cast can fail only when no document has the identifier.
\<close>

definition is_hex_digit :: "char \<Rightarrow> bool" where
  "is_hex_digit c =
     (let n = (of_char c :: nat)
      in (48 \<le> n \<and> n \<le> 57) \<or> (65 \<le> n \<and> n \<le> 70) \<or> (97 \<le> n \<and> n \<le> 102))"

definition castable :: "string \<Rightarrow> bool" where
  "castable i = (length i = 24 \<and> list_all is_hex_digit i)"

definition lookup :: "string \<Rightarrow> db \<Rightarrow> app_error + project option" where
  "lookup i d =
     (case find (\<lambda>p. proj_id p = i) (docs d) of
        Some p \<Rightarrow> Inr (Some p)
      | None \<Rightarrow> if castable i then Inr None else Inl CastError)"

definition db_findById :: "string \<Rightarrow> db \<Rightarrow> (app_error + project option) \<times> db" where
  "db_findById i d = (lookup i d, logged (Call_findById i) d)"

definition db_create :: "project \<Rightarrow> db \<Rightarrow> project \<times> db" where
  "db_create p d = (p, logged Call_create (d\<lparr>docs := docs d @ [p]\<rparr>))"

definition db_save :: "project \<Rightarrow> db \<Rightarrow> project \<times> db" where
  "db_save p d =
     (p, logged (Call_save (proj_id p))
           (d\<lparr>docs := map (\<lambda>x. if proj_id x = proj_id p then p else x) (docs d)\<rparr>))"

definition db_findByIdAndDelete :: "string \<Rightarrow> db \<Rightarrow> (app_error + project option) \<times> db" where
  "db_findByIdAndDelete i d =
     (lookup i d,
      logged (Call_findByIdAndDelete i) (d\<lparr>docs := filter (\<lambda>p. proj_id p \<noteq> i) (docs d)\<rparr>))"

text \<open>
  Modelled from the spec: what the schema stores for a value of the field's type. For a
  value of another type the model stores the field's default.
\<close>

definition cast_string :: "jsval \<Rightarrow> string" where
  "cast_string v = (case v of JStr s \<Rightarrow> s | _ \<Rightarrow> [])"

definition cast_tech :: "jsval \<Rightarrow> string list" where
  "cast_tech v = (case v of JArr xs \<Rightarrow> map cast_string xs | _ \<Rightarrow> [])"

definition cast_bool :: "jsval \<Rightarrow> bool" where
  "cast_bool v = (case v of JBool b \<Rightarrow> b | _ \<Rightarrow> False)"

definition cast_int :: "jsval \<Rightarrow> int" where
  "cast_int v = (case v of JNum n \<Rightarrow> n | _ \<Rightarrow> 0)"

section \<open>Requests and routes\<close>

text \<open>
  The query parameter \<open>q\<close> is absent, a string, or an array or object (repeated or
  bracketed parameters). The body maps a field name to its value, \<open>undefined\<close> when the
  field is absent; \<open>file_part\<close> is the part named \<open>image\<close> of a multipart body.
\<close>

datatype qval = QAbsent | QStr string | QOther

record request =
  authorization :: "string option"
  id_param :: string
  query_q :: qval
  body :: "string \<Rightarrow> jsval"
  file_part :: "upload option"

definition request_fields :: "request \<Rightarrow> fields" where
  "request_fields req =
     \<lparr>in_params = (\<lambda>k. if k = ''id'' then JStr (id_param req) else JUndefined),
      in_body = body req\<rparr>"

text \<open>\<open>(req.query.q || "").trim()\<close>: an array or object has no \<open>trim\<close> method.\<close>

definition query_text :: "qval \<Rightarrow> js_error + string" where
  "query_text q =
     (case q of
        QAbsent \<Rightarrow> Inr (trim [])
      | QStr s \<Rightarrow> Inr (trim s)
      | QOther \<Rightarrow> Inl TypeError)"

text \<open>\<open>GET /\<close>. An error thrown in the handler's \<open>try\<close> goes to \<open>next(err)\<close>.\<close>

definition list_route :: "deps \<Rightarrow> request \<Rightarrow> db \<Rightarrow> response \<times> db" where
  "list_route D req d =
     (case query_text (query_q req) of
        Inl e \<Rightarrow> (error_handler (JsError e), d)
      | Inr q \<Rightarrow>
          (case db_find D (if q \<noteq> [] then Regex_any q else All_docs) list_sort d of
             (Inl e, d') \<Rightarrow> (error_handler e, d')
           | (Inr projects, d') \<Rightarrow> (\<lparr>status = 200, payload = Docs projects\<rparr>, d')))"

text \<open>\<open>GET /:id\<close>. An error of the lookup is caught and handed to \<open>next(err)\<close>.\<close>

definition get_route :: "deps \<Rightarrow> request \<Rightarrow> db \<Rightarrow> response \<times> db" where
  "get_route D req d =
     (case run_rules D idRules (request_fields req) of
        Inl e \<Rightarrow> (error_handler (JsError e), d)
      | Inr (errors, F) \<Rightarrow>
          (case handleValidation D errors of
             Some valErr \<Rightarrow> (valErr, d)
           | None \<Rightarrow>
               (case db_findById (id_param req) d of
                  (Inl e, d') \<Rightarrow> (error_handler e, d')
                | (Inr None, d') \<Rightarrow> (message_response 404 ''Projet introuvable'', d')
                | (Inr (Some proj), d') \<Rightarrow> (\<lparr>status = 200, payload = Doc proj\<rparr>, d'))))"

text \<open>The destructuring default \<open>name = dflt\<close> applies to \<open>undefined\<close> only.\<close>

definition with_default :: "jsval \<Rightarrow> jsval \<Rightarrow> jsval" where
  "with_default v dflt = (if v = JUndefined then dflt else v)"

text \<open>
  \<open>POST /\<close>. The identifier and the creation time that the store assigns to the new
  document are arguments.
\<close>

definition create_route :: "deps \<Rightarrow> string \<Rightarrow> int \<Rightarrow> request \<Rightarrow> db \<Rightarrow> response \<times> db" where
  "create_route D new_id now req d =
     (case verifyToken D (authorization req) of
        Inl denied \<Rightarrow> (denied, d)
      | Inr user \<Rightarrow>
          (case upload_single (file_part req) of
             Inl msg \<Rightarrow> (error_handler (Err msg), d)
           | Inr file \<Rightarrow>
               (case run_rules D createRules (request_fields req) of
                  Inl e \<Rightarrow> (error_handler (JsError e), d)
                | Inr (errors, F) \<Rightarrow>
                    (case handleValidation D errors of
                       Some valErr \<Rightarrow> (valErr, d)
                     | None \<Rightarrow>
                         (let b = in_body F;
                              cover = (case file of None \<Rightarrow> None
                                       | Some f \<Rightarrow> bufferToDataUrl (Some f));
                              (project, d') = db_create
                                \<lparr>proj_id = new_id,
                                 title = cast_string (b ''title''),
                                 description = cast_string (b ''description''),
                                 tech = cast_tech (with_default (b ''tech'') (JArr [])),
                                 githubUrl = cast_string (with_default (b ''githubUrl'') (JStr [])),
                                 demoUrl = cast_string (with_default (b ''demoUrl'') (JStr [])),
                                 featured = cast_bool (with_default (b ''featured'') (JBool False)),
                                 order = cast_int (with_default (b ''order'') (JNum 0)),
                                 coverImage = cover,
                                 createdAt = now\<rparr> d
                          in (\<lparr>status = 201, payload = Doc project\<rparr>, d'))))))"

text \<open>
  The field-by-field merge of \<open>PUT /:id\<close>, on the body as the rules left it: one
  function for each \<open>if\<close> of the handler, applied in the handler's order.
\<close>

definition merge_title :: "jsval \<Rightarrow> project \<Rightarrow> project" where
  "merge_title v proj = (case v of JStr s \<Rightarrow> proj\<lparr>title := trim s\<rparr> | _ \<Rightarrow> proj)"

definition merge_description :: "jsval \<Rightarrow> project \<Rightarrow> project" where
  "merge_description v proj = (case v of JStr s \<Rightarrow> proj\<lparr>description := trim s\<rparr> | _ \<Rightarrow> proj)"

definition merge_tech :: "jsval \<Rightarrow> project \<Rightarrow> project" where
  "merge_tech v proj = (case v of JArr xs \<Rightarrow> proj\<lparr>tech := cast_tech (JArr xs)\<rparr> | _ \<Rightarrow> proj)"

definition merge_githubUrl :: "jsval \<Rightarrow> project \<Rightarrow> project" where
  "merge_githubUrl v proj = (case v of JStr s \<Rightarrow> proj\<lparr>githubUrl := trim s\<rparr> | _ \<Rightarrow> proj)"

definition merge_demoUrl :: "jsval \<Rightarrow> project \<Rightarrow> project" where
  "merge_demoUrl v proj = (case v of JStr s \<Rightarrow> proj\<lparr>demoUrl := trim s\<rparr> | _ \<Rightarrow> proj)"

definition merge_featured :: "jsval \<Rightarrow> project \<Rightarrow> project" where
  "merge_featured v proj = (case v of JBool x \<Rightarrow> proj\<lparr>featured := x\<rparr> | _ \<Rightarrow> proj)"

text \<open>\<open>Number.isFinite\<close> holds of a number other than \<open>NaN\<close>.\<close>

definition merge_order :: "jsval \<Rightarrow> project \<Rightarrow> project" where
  "merge_order v proj = (case v of JNum n \<Rightarrow> proj\<lparr>order := n\<rparr> | _ \<Rightarrow> proj)"

definition merge_coverImage :: "upload option \<Rightarrow> project \<Rightarrow> project" where
  "merge_coverImage file proj =
     (case file of None \<Rightarrow> proj | Some f \<Rightarrow> proj\<lparr>coverImage := bufferToDataUrl (Some f)\<rparr>)"

definition apply_update :: "project \<Rightarrow> (string \<Rightarrow> jsval) \<Rightarrow> upload option \<Rightarrow> project" where
  "apply_update proj b file =
     merge_coverImage file
       (merge_order (b ''order'')
         (merge_featured (b ''featured'')
           (merge_demoUrl (b ''demoUrl'')
             (merge_githubUrl (b ''githubUrl'')
               (merge_tech (b ''tech'')
                 (merge_description (b ''description'')
                   (merge_title (b ''title'') proj)))))))"

text \<open>
  \<open>PUT /:id\<close>. An error of the lookup reaches the handler's \<open>catch\<close>; it is no multer
  error and its message is not the file filter's, so it is handed to \<open>next(err)\<close>.
\<close>

definition update_route :: "deps \<Rightarrow> request \<Rightarrow> db \<Rightarrow> response \<times> db" where
  "update_route D req d =
     (case verifyToken D (authorization req) of
        Inl denied \<Rightarrow> (denied, d)
      | Inr user \<Rightarrow>
          (case upload_single (file_part req) of
             Inl msg \<Rightarrow> (error_handler (Err msg), d)
           | Inr file \<Rightarrow>
               (case run_rules D updateRules (request_fields req) of
                  Inl e \<Rightarrow> (error_handler (JsError e), d)
                | Inr (errors, F) \<Rightarrow>
                    (case handleValidation D errors of
                       Some valErr \<Rightarrow> (valErr, d)
                     | None \<Rightarrow>
                         (case db_findById (id_param req) d of
                            (Inl e, d') \<Rightarrow> (error_handler e, d')
                          | (Inr None, d') \<Rightarrow> (message_response 404 ''Projet introuvable'', d')
                          | (Inr (Some proj), d') \<Rightarrow>
                              (let (saved, d'') = db_save (apply_update proj (in_body F) file) d'
                               in (\<lparr>status = 200, payload = Doc saved\<rparr>, d'')))))))"

text \<open>\<open>DELETE /:id\<close>. An error of the store is caught and handed to \<open>next(err)\<close>.\<close>

definition delete_route :: "deps \<Rightarrow> request \<Rightarrow> db \<Rightarrow> response \<times> db" where
  "delete_route D req d =
     (case verifyToken D (authorization req) of
        Inl denied \<Rightarrow> (denied, d)
      | Inr user \<Rightarrow>
          (case run_rules D idRules (request_fields req) of
             Inl e \<Rightarrow> (error_handler (JsError e), d)
           | Inr (errors, F) \<Rightarrow>
               (case handleValidation D errors of
                  Some valErr \<Rightarrow> (valErr, d)
                | None \<Rightarrow>
                    (case db_findByIdAndDelete (id_param req) d of
                       (Inl e, d') \<Rightarrow> (error_handler e, d')
                     | (Inr None, d') \<Rightarrow> (message_response 404 ''Projet introuvable'', d')
                     | (Inr (Some proj), d') \<Rightarrow>
                         (\<lparr>status = 200,
                           payload = Json (JObj [(''ok'', JBool True), (''id'', JStr (id_param req))])\<rparr>,
                          d')))))"

section \<open>A test double of the collaborators\<close>

text \<open>
  Concrete collaborators for running the routes on examples: a verifier that accepts
  three tokens under the default secret (one of them with a payload that is a plain
  string), the validation library's identifier check, a store that knows the pattern
  \<open>a+\<close>, and stand-ins for the URL check and the string form of other values.

  The library's \<open>isMongoId(str)\<close> is \<open>isHexadecimal(str) && str.length === 24\<close>, and
  \<open>isHexadecimal\<close> tests \<open>/^(0x|0h)?[0-9A-F]+$/i\<close>: hexadecimal digits after an optional
  prefix \<open>0x\<close> or \<open>0h\<close>.
\<close>

definition isHexadecimal :: "string \<Rightarrow> bool" where
  "isHexadecimal s =
     ((s \<noteq> [] \<and> list_all is_hex_digit s)
      \<or> (map lower_char (take 2 s) \<in> set [''0x'', ''0h'']
          \<and> drop 2 s \<noteq> [] \<and> list_all is_hex_digit (drop 2 s)))"

definition validator_isMongoId :: "string \<Rightarrow> bool" where
  "validator_isMongoId s = (isHexadecimal s \<and> length s = 24)"

definition test_deps :: deps where
  "test_deps =
     \<lparr>jwt_verify = (\<lambda>token key.
         if key = ''dev_secret'' \<and> token = ''good'' then Some (PayloadObj [(''id'', JStr ''u1'')])
         else if key = ''dev_secret'' \<and> token = ''anon'' then Some (PayloadObj [(''iat'', JNum 1)])
         else if key = ''dev_secret'' \<and> token = ''text'' then Some (PayloadStr ''hello'')
         else None),
      JWT_SECRET = None,
      isMongoId = validator_isMongoId,
      isURL = (\<lambda>s. starts_with ''http://'' s \<or> starts_with ''https://'' s),
      toBoolean = (\<lambda>s. s \<noteq> ''0'' \<and> s \<noteq> ''false'' \<and> s \<noteq> []),
      stringify = (\<lambda>v. case v of JUndefined \<Rightarrow> [] | JNull \<Rightarrow> [] | JNaN \<Rightarrow> []
                       | _ \<Rightarrow> (case js_String v of Inl e \<Rightarrow> [] | Inr s \<Rightarrow> s)),
      validator_version = V7,
      store_regex = (\<lambda>pat. if pat = ''a+'' then Some (\<lambda>s. CHR ''a'' \<in> set (map lower_char s))
                          else None)\<rparr>"

definition test_request :: request where
  "test_request =
     \<lparr>authorization = None, id_param = [], query_q = QAbsent,
      body = (\<lambda>k. JUndefined), file_part = None\<rparr>"

definition test_project :: project where
  "test_project =
     \<lparr>proj_id = ''0123456789abcdef01234567'', title = ''abc'', description = ''a small project'',
      tech = [''x''], githubUrl = [], demoUrl = [], featured = False, order = 0,
      coverImage = None, createdAt = 100\<rparr>"

definition test_db :: db where
  "test_db = \<lparr>docs = [test_project], calls = []\<rparr>"

section \<open>Properties of the normalizer\<close>

lemma dropWhile_rev_keep:
  assumes "t = [] \<or> \<not> P (hd t)"
  shows "dropWhile P (rev (dropWhile P (rev t))) = rev (dropWhile P (rev t))"
proof (cases "dropWhile P (rev t) = []")
  case True
  show ?thesis unfolding True by simp
next
  case False
  define r where "r = dropWhile P (rev t)"
  have "rev t = takeWhile P (rev t) @ r" by (simp add: r_def)
  then have t: "t = rev r @ rev (takeWhile P (rev t))"
    by (metis rev_append rev_rev_ident)
  from False have "rev r \<noteq> []" by (simp add: r_def)
  with t have "hd (rev r) = hd t" by (metis hd_append2)
  moreover from t \<open>rev r \<noteq> []\<close> have "t \<noteq> []" by auto
  ultimately have "\<not> P (hd (rev r))" using assms by simp
  with \<open>rev r \<noteq> []\<close> have "dropWhile P (rev r) = rev r"
    by (cases "rev r") auto
  then show ?thesis by (simp add: r_def)
qed

lemma dropWhile_head: "dropWhile P s = [] \<or> \<not> P (hd (dropWhile P s))"
  by (metis hd_dropWhile)

lemma trim_idem: "trim (trim s) = trim s"
proof -
  let ?t = "dropWhile is_space s"
  have "dropWhile is_space (trim s) = trim s"
    unfolding trim_def using dropWhile_rev_keep [OF dropWhile_head] .
  then show ?thesis
    by (simp add: trim_def dropWhile_idem)
qed


lemma split_on_nonempty: "split_on sep s \<noteq> []"
  by (induction s) (auto split: list.splits)

lemma join_split: "join_with sep (split_on sep s) = s"
proof (induction s)
  case Nil
  then show ?case by simp
next
  case (Cons c cs)
  obtain seg segs where sp: "split_on sep cs = seg # segs"
    using split_on_nonempty [of sep cs] by (cases "split_on sep cs") auto
  with Cons show ?case by (cases segs) auto
qed

lemma split_no_sep: "seg \<in> set (split_on sep s) \<Longrightarrow> sep \<notin> set seg"
  by (induction s arbitrary: seg) (auto split: list.splits if_splits)

lemma trim_decompose:
  "\<exists>pre post. s = pre @ trim s @ post \<and> list_all is_space pre \<and> list_all is_space post"
proof -
  let ?t = "dropWhile is_space s"
  have a: "s = takeWhile is_space s @ ?t" by simp
  have "rev ?t = takeWhile is_space (rev ?t) @ dropWhile is_space (rev ?t)" by simp
  then have b: "?t = trim s @ rev (takeWhile is_space (rev ?t))"
    unfolding trim_def by (metis rev_append rev_rev_ident)
  have c: "list_all is_space (takeWhile is_space s)"
    by (simp add: list_all_iff) (meson set_takeWhileD)
  have d: "list_all is_space (rev (takeWhile is_space (rev ?t)))"
    by (simp add: list_all_iff) (meson set_takeWhileD)
  from a b have "s = takeWhile is_space s @ trim s @ rev (takeWhile is_space (rev ?t))"
    by metis
  with c d show ?thesis by blast
qed

lemma trim_ends:
  "trim s \<noteq> [] \<Longrightarrow> \<not> is_space (hd (trim s)) \<and> \<not> is_space (last (trim s))"
proof -
  assume ne: "trim s \<noteq> []"
  have "dropWhile is_space (trim s) = trim s"
    unfolding trim_def using dropWhile_rev_keep [OF dropWhile_head] .
  with ne have h: "\<not> is_space (hd (trim s))"
    by (metis hd_dropWhile)
  from ne have "dropWhile is_space (rev (dropWhile is_space s)) \<noteq> []"
    by (simp add: trim_def)
  then have "\<not> is_space (hd (dropWhile is_space (rev (dropWhile is_space s))))"
    by (metis hd_dropWhile)
  then have "\<not> is_space (last (trim s))"
    using ne by (simp add: trim_def last_rev)
  with h show ?thesis by simp
qed

lemma map_String_trim_ok:
  "map js_String xs = map Inr ss \<Longrightarrow> map_String_trim xs = Inr (map trim ss)"
proof (induction xs arbitrary: ss)
  case Nil
  then show ?case by simp
next
  case (Cons x xs)
  then obtain t ts where ss: "ss = t # ts" by (cases ss) auto
  with Cons.prems have "js_String x = Inr t" and "map js_String xs = map Inr ts" by auto
  with Cons.IH [of ts] ss show ?case by simp
qed

lemma map_String_trim_fail:
  "map_String_trim xs = Inl e \<Longrightarrow> \<exists>x\<in>set xs. js_String x = Inl e"
  by (induction xs) (auto split: sum.splits)

lemma map_String_trim_throws:
  "\<exists>x\<in>set xs. js_String x = Inl e \<Longrightarrow> map_String_trim xs = Inl e"
proof (induction xs)
  case Nil
  then show ?case by simp
next
  case (Cons a xs)
  show ?case
  proof (cases "js_String a")
    case (Inl e')
    have "e' = e" by (cases e; cases e') simp
    with Inl show ?thesis by simp
  next
    case (Inr s)
    with Cons.prems have "\<exists>x\<in>set xs. js_String x = Inl e" by auto
    with Cons.IH Inr show ?thesis by simp
  qed
qed

lemma map_String_trim_total:
  "\<forall>x\<in>set xs. js_String x \<noteq> Inl TypeError \<Longrightarrow> \<exists>ss. map_String_trim xs = Inr ss"
proof (induction xs)
  case Nil
  then show ?case by simp
next
  case (Cons x xs)
  then obtain ss where "map_String_trim xs = Inr ss" by auto
  moreover from Cons.prems obtain t where "js_String x = Inr t"
    by (cases "js_String x") (auto, metis js_error.exhaust)
  ultimately show ?case by simp
qed

lemma map_String_trim_trimmed:
  "map_String_trim xs = Inr ss \<Longrightarrow> t \<in> set ss \<Longrightarrow> trim t = t"
  by (induction xs arbitrary: ss) (auto split: sum.splits simp: trim_idem)

lemma normalizeTech_result:
  assumes "normalizeTech v = Inr ss" and "t \<in> set ss"
  shows "trim t = t \<and> t \<noteq> []"
proof (cases v)
  case (JArr xs)
  with assms obtain us where "map_String_trim xs = Inr us" and "ss = filter_Boolean us"
    by (auto split: sum.splits)
  with assms(2) show ?thesis
    using map_String_trim_trimmed [of xs us t] by (auto simp: filter_Boolean_def)
next
  case (JStr s)
  with assms show ?thesis by (auto simp: filter_Boolean_def trim_idem)
qed (use assms in auto)

lemma map_String_trim_strings: "map_String_trim (map JStr ss) = Inr (map trim ss)"
  by (rule map_String_trim_ok) simp

text \<open>
  Claim C8. \<open>normalizeTech\<close> maps the string \<open>a, b ,,c\<close> to \<open>a\<close>, \<open>b\<close>, \<open>c\<close> and the
  sequence of \<open>x \<close> and \<open> y\<close> to \<open>x\<close>, \<open>y\<close>. On a sequence whose elements have the
  string conversions \<open>ss\<close>, the result is \<open>ss\<close> trimmed with the empty strings dropped,
  in order. On a string, the result is its comma-separated segments (they join back to
  the string and hold no comma), trimmed, with the empty ones dropped. Every other value
  gives the empty sequence.
\<close>

theorem normalizeTech_cases:
  "normalizeTech (JStr ''a, b ,,c'') = Inr [''a'', ''b'', ''c'']
   \<and> normalizeTech (JArr [JStr ''x '', JStr '' y'']) = Inr [''x'', ''y'']
   \<and> (map js_String xs = map Inr ss \<longrightarrow>
        normalizeTech (JArr xs) = Inr (filter (\<lambda>t. t \<noteq> []) (map trim ss)))
   \<and> (\<exists>segs. join_with CHR '','' segs = s \<and> (\<forall>seg\<in>set segs. CHR '','' \<notin> set seg)
        \<and> normalizeTech (JStr s) = Inr (filter (\<lambda>t. t \<noteq> []) (map trim segs)))
   \<and> ((\<forall>ys. v \<noteq> JArr ys) \<and> (\<forall>t. v \<noteq> JStr t) \<longrightarrow> normalizeTech v = Inr [])"
proof -
  have a: "normalizeTech (JStr ''a, b ,,c'') = Inr [''a'', ''b'', ''c'']"
    by (simp add: filter_Boolean_def trim_def is_space_def)
  have b: "normalizeTech (JArr [JStr ''x '', JStr '' y'']) = Inr [''x'', ''y'']"
    by (simp add: filter_Boolean_def trim_def is_space_def)
  have c: "map js_String xs = map Inr ss \<longrightarrow>
        normalizeTech (JArr xs) = Inr (filter (\<lambda>t. t \<noteq> []) (map trim ss))"
    by (simp add: map_String_trim_ok filter_Boolean_def)
  have d: "\<exists>segs. join_with CHR '','' segs = s \<and> (\<forall>seg\<in>set segs. CHR '','' \<notin> set seg)
        \<and> normalizeTech (JStr s) = Inr (filter (\<lambda>t. t \<noteq> []) (map trim segs))"
    using join_split [of "CHR '',''" s] split_no_sep [of _ "CHR '',''" s]
    by (intro exI [of _ "split_on CHR '','' s"]) (simp add: filter_Boolean_def)
  have e: "(\<forall>ys. v \<noteq> JArr ys) \<and> (\<forall>t. v \<noteq> JStr t) \<longrightarrow> normalizeTech v = Inr []"
    by (cases v) auto
  from a b c d e show ?thesis by blast
qed

theorem normalizeTech_cases_witness:
  "normalizeTech (JArr [JNum 12, JNull, JStr '' a '', JStr ''  '']) = Inr [''12'', ''null'', ''a'']
   \<and> normalizeTech (JStr ''k, l'') = Inr [''k'', ''l'']
   \<and> normalizeTech (JBool True) = Inr []"
  using normalizeTech_cases [of "[JNum 12, JNull, JStr '' a '', JStr ''  '']"
      "[''12'', ''null'', '' a '', ''  '']" "''k, l''" "JBool True"]
  by (simp add: trim_def is_space_def dec_int_def digit_char_def filter_Boolean_def)

text \<open>
  The normalizer is not total on sequences: an element that is an object with an own
  \<open>toString\<close> property makes \<open>String\<close> throw.
\<close>

theorem normalizeTech_throws:
  "normalizeTech (JArr [JObj [(''toString'', JNum 1)]]) = Inl TypeError"
  by simp

text \<open>
  Claim C9, amended. Whenever \<open>normalizeTech\<close> returns a sequence, normalizing that
  sequence again returns it unchanged. It returns a sequence on every value except a
  sequence that holds an element whose string conversion throws; on every such sequence
  it throws, and it fails only there.
\<close>

theorem normalizeTech_idempotent:
  "(normalizeTech v = Inr ss \<longrightarrow> normalizeTech (JArr (map JStr ss)) = Inr ss)
   \<and> ((\<forall>xs. v = JArr xs \<longrightarrow> (\<forall>x\<in>set xs. js_String x \<noteq> Inl TypeError))
        \<longrightarrow> (\<exists>rs. normalizeTech v = Inr rs))
   \<and> (normalizeTech v = Inl e \<longrightarrow> (\<exists>xs. v = JArr xs \<and> (\<exists>x\<in>set xs. js_String x = Inl e)))
   \<and> ((\<exists>xs. v = JArr xs \<and> (\<exists>x\<in>set xs. js_String x = Inl e)) \<longrightarrow> normalizeTech v = Inl e)"
proof -
  have a: "normalizeTech v = Inr ss \<longrightarrow> normalizeTech (JArr (map JStr ss)) = Inr ss"
  proof
    assume r: "normalizeTech v = Inr ss"
    then have "\<forall>t\<in>set ss. trim t = t \<and> t \<noteq> []"
      using normalizeTech_result by blast
    then have "map trim ss = ss" and "filter (\<lambda>t. t \<noteq> []) ss = ss"
      by (simp_all add: map_idI)
    then show "normalizeTech (JArr (map JStr ss)) = Inr ss"
      by (simp add: map_String_trim_strings filter_Boolean_def)
  qed
  have b: "(\<forall>xs. v = JArr xs \<longrightarrow> (\<forall>x\<in>set xs. js_String x \<noteq> Inl TypeError))
        \<longrightarrow> (\<exists>rs. normalizeTech v = Inr rs)"
  proof (cases v)
    case (JArr xs)
    show ?thesis
    proof
      assume "\<forall>xs. v = JArr xs \<longrightarrow> (\<forall>x\<in>set xs. js_String x \<noteq> Inl TypeError)"
      with JArr have "\<forall>x\<in>set xs. js_String x \<noteq> Inl TypeError" by simp
      then obtain us where "map_String_trim xs = Inr us"
        using map_String_trim_total by blast
      with JArr show "\<exists>rs. normalizeTech v = Inr rs" by simp
    qed
  qed auto
  have c: "normalizeTech v = Inl e \<longrightarrow> (\<exists>xs. v = JArr xs \<and> (\<exists>x\<in>set xs. js_String x = Inl e))"
    by (cases v) (auto split: sum.splits dest: map_String_trim_fail)
  have t: "(\<exists>xs. v = JArr xs \<and> (\<exists>x\<in>set xs. js_String x = Inl e)) \<longrightarrow> normalizeTech v = Inl e"
  proof
    assume "\<exists>xs. v = JArr xs \<and> (\<exists>x\<in>set xs. js_String x = Inl e)"
    then obtain xs where v: "v = JArr xs" and "\<exists>x\<in>set xs. js_String x = Inl e" by blast
    then have "map_String_trim xs = Inl e" by (simp add: map_String_trim_throws)
    with v show "normalizeTech v = Inl e" by simp
  qed
  from a b c t show ?thesis by blast
qed

theorem normalizeTech_idempotent_witness:
  "normalizeTech (JArr [JStr '' a '', JNum 7, JStr '''']) = Inr [''a'', ''7'']
   \<and> normalizeTech (JArr (map JStr [''a'', ''7''])) = Inr [''a'', ''7'']
   \<and> (\<exists>rs. normalizeTech (JArr [JStr '' a '', JNum 7, JStr '''']) = Inr rs)
   \<and> (\<exists>x\<in>set [JObj [(''toString'', JNum 1)]]. js_String x = Inl TypeError)"
  using normalizeTech_idempotent [of "JArr [JStr '' a '', JNum 7, JStr '''']" "[''a'', ''7'']" TypeError]
    normalizeTech_idempotent [of "JArr [JObj [(''toString'', JNum 1)]]" "[]" TypeError]
  by (simp add: trim_def is_space_def dec_int_def digit_char_def filter_Boolean_def)

section \<open>Properties of the sort\<close>

lemma spec_cmp_list_sort:
  "spec_cmp list_sort a b \<le> 0 \<longleftrightarrow>
     (featured a \<and> \<not> featured b)
     \<or> (featured a = featured b
         \<and> (order a < order b \<or> (order a = order b \<and> createdAt b \<le> createdAt a)))"
  by (auto simp: list_sort_def cmp3_def Let_def)

lemma spec_cmp_total: "\<not> spec_cmp list_sort a b \<le> 0 \<Longrightarrow> spec_cmp list_sort b a \<le> 0"
  unfolding spec_cmp_list_sort by auto

lemma spec_cmp_trans:
  "spec_cmp list_sort a b \<le> 0 \<Longrightarrow> spec_cmp list_sort b c \<le> 0 \<Longrightarrow> spec_cmp list_sort a c \<le> 0"
  unfolding spec_cmp_list_sort by auto

lemma mset_insert_doc: "mset (insert_doc spec x ys) = add_mset x (mset ys)"
  by (induction ys) auto

lemma mset_sort_docs: "mset (sort_docs spec ps) = mset ps"
  by (induction ps) (auto simp: sort_docs_def mset_insert_doc)

lemma set_insert_doc: "set (insert_doc spec x ys) = insert x (set ys)"
  by (induction ys) auto

lemma sorted_insert_doc:
  "sorted_wrt (\<lambda>a b. spec_cmp list_sort a b \<le> 0) ys \<Longrightarrow>
   sorted_wrt (\<lambda>a b. spec_cmp list_sort a b \<le> 0) (insert_doc list_sort x ys)"
proof (induction ys)
  case Nil
  then show ?case by simp
next
  case (Cons y ys)
  show ?case
  proof (cases "spec_cmp list_sort x y \<le> 0")
    case True
    with Cons.prems show ?thesis
      by (auto intro: spec_cmp_trans)
  next
    case False
    then have "spec_cmp list_sort y x \<le> 0" by (rule spec_cmp_total)
    with False Cons show ?thesis
      by (auto simp: set_insert_doc)
  qed
qed

lemma sorted_sort_docs:
  "sorted_wrt (\<lambda>a b. spec_cmp list_sort a b \<le> 0) (sort_docs list_sort ps)"
  by (induction ps) (auto simp: sort_docs_def sorted_insert_doc)

lemma sort_docs_nth:
  assumes "i < j" and "j < length (sort_docs list_sort ps)"
  shows "spec_cmp list_sort (sort_docs list_sort ps ! i) (sort_docs list_sort ps ! j) \<le> 0"
  using sorted_sort_docs [of ps] assms by (simp add: sorted_wrt_iff_nth_less)

section \<open>Properties of the list route\<close>

lemma compile_plain:
  "\<forall>c\<in>set q. c \<notin> set metachars \<Longrightarrow> compile_pattern q = Some (map PChar q)"
  by (induction q) (auto simp: metachars_def)

lemma match_here_plain:
  "match_here (map PChar q) s \<longleftrightarrow> (\<exists>post. map lower_char s = map lower_char q @ post)"
proof (induction q arbitrary: s)
  case Nil
  then show ?case by simp
next
  case (Cons p ps)
  then show ?case by (cases s) auto
qed

lemma regex_search_split:
  "regex_search items s \<longleftrightarrow> (\<exists>pre suf. s = pre @ suf \<and> match_here items suf)"
proof (induction s)
  case Nil
  then show ?case by simp
next
  case (Cons c cs)
  show ?case
  proof
    assume "regex_search items (c # cs)"
    then consider "match_here items (c # cs)" | "regex_search items cs" by auto
    then show "\<exists>pre suf. c # cs = pre @ suf \<and> match_here items suf"
    proof cases
      case 1
      then show ?thesis by (intro exI [of _ "[]"] exI [of _ "c # cs"]) simp
    next
      case 2
      with Cons obtain pre suf where "cs = pre @ suf" and "match_here items suf" by auto
      then show ?thesis by (intro exI [of _ "c # pre"] exI [of _ suf]) simp
    qed
  next
    assume "\<exists>pre suf. c # cs = pre @ suf \<and> match_here items suf"
    then obtain pre suf where eq: "c # cs = pre @ suf" and m: "match_here items suf" by auto
    show "regex_search items (c # cs)"
    proof (cases pre)
      case Nil
      with eq have "suf = c # cs" by simp
      with m show ?thesis by simp
    next
      case (Cons a pre')
      with eq have "cs = pre' @ suf" by simp
      with m Cons.IH show ?thesis by auto
    qed
  qed
qed

lemma regex_search_plain:
  "regex_search (map PChar q) s \<longleftrightarrow>
     (\<exists>pre post. map lower_char s = pre @ map lower_char q @ post)"
proof
  assume "regex_search (map PChar q) s"
  then obtain pre suf where "s = pre @ suf" and "match_here (map PChar q) suf"
    unfolding regex_search_split by auto
  then obtain post where "map lower_char suf = map lower_char q @ post"
    unfolding match_here_plain by auto
  with \<open>s = pre @ suf\<close> have "map lower_char s = map lower_char pre @ map lower_char q @ post"
    by simp
  then show "\<exists>pre post. map lower_char s = pre @ map lower_char q @ post" by blast
next
  assume "\<exists>pre post. map lower_char s = pre @ map lower_char q @ post"
  then obtain pre post where eq: "map lower_char s = pre @ map lower_char q @ post" by auto
  let ?n = "length pre"
  have "map lower_char (drop ?n s) = drop ?n (map lower_char s)" by (simp add: drop_map)
  also have "\<dots> = map lower_char q @ post" using eq by simp
  finally have "match_here (map PChar q) (drop ?n s)"
    unfolding match_here_plain by blast
  moreover have "s = take ?n s @ drop ?n s" by simp
  ultimately show "regex_search (map PChar q) s"
    unfolding regex_search_split by blast
qed

lemma doc_matches_plain:
  "doc_matches (regex_search (map PChar q)) p \<longleftrightarrow>
     (\<exists>pre post. map lower_char (title p) = pre @ map lower_char q @ post)
     \<or> (\<exists>pre post. map lower_char (description p) = pre @ map lower_char q @ post)
     \<or> (\<exists>t\<in>set (tech p). \<exists>pre post. map lower_char t = pre @ map lower_char q @ post)"
  by (simp add: doc_matches_def regex_search_plain list_ex_iff)

lemma store_match_plain:
  "\<forall>c\<in>set q. c \<notin> set metachars \<Longrightarrow> store_match D q = Some (regex_search (map PChar q))"
  by (simp add: store_match_def compile_plain)

lemma spec_cmp_keys:
  assumes "spec_cmp list_sort a b \<le> 0"
  shows "(featured b \<longrightarrow> featured a)
         \<and> (featured a = featured b \<longrightarrow> order a \<le> order b)
         \<and> (featured a = featured b \<and> order a = order b \<longrightarrow> createdAt b \<le> createdAt a)"
  using assms unfolding spec_cmp_list_sort by auto

lemma list_route_cases:
  "(\<exists>xs. list_route D req d
           = (\<lparr>status = 200, payload = Docs (sort_docs list_sort xs)\<rparr>, logged Call_find d))
   \<or> (\<exists>e d'. list_route D req d = (error_handler e, d')
        \<and> (query_q req = QOther
            \<or> (\<exists>s. query_q req = QStr s \<and> trim s \<noteq> [] \<and> store_match D (trim s) = None)))"
proof (cases "query_q req")
  case QAbsent
  then have "list_route D req d
      = (\<lparr>status = 200, payload = Docs (sort_docs list_sort (docs d))\<rparr>, logged Call_find d)"
    by (simp add: list_route_def query_text_def db_find_def trim_def)
  then show ?thesis by blast
next
  case (QStr s)
  show ?thesis
  proof (cases "trim s = []")
    case True
    with QStr have "list_route D req d
        = (\<lparr>status = 200, payload = Docs (sort_docs list_sort (docs d))\<rparr>, logged Call_find d)"
      by (simp add: list_route_def query_text_def db_find_def)
    then show ?thesis by blast
  next
    case False
    show ?thesis
    proof (cases "store_match D (trim s)")
      case None
      with QStr False have "list_route D req d = (error_handler RegexError, logged Call_find d)"
        by (simp add: list_route_def query_text_def db_find_def)
      with QStr False None show ?thesis by blast
    next
      case (Some m)
      with QStr False have "list_route D req d
          = (\<lparr>status = 200,
              payload = Docs (sort_docs list_sort (filter (doc_matches m) (docs d)))\<rparr>,
             logged Call_find d)"
        by (simp add: list_route_def query_text_def db_find_def)
      then show ?thesis by blast
    qed
  qed
next
  case QOther
  then have "list_route D req d = (error_handler (JsError TypeError), d)"
    by (simp add: list_route_def query_text_def)
  with QOther show ?thesis by blast
qed

text \<open>
  Claim C3. Whatever the query, the list route either answers 200 with a list in which,
  for any two positions \<open>i < j\<close>, a featured record never follows an unfeatured one; with
  equal \<open>featured\<close>, \<open>order\<close> does not decrease; and with equal \<open>featured\<close> and \<open>order\<close>,
  the creation time does not increase; or it returns no list: the error handler answers,
  because \<open>q\<close> is no string or the store rejects the pattern.
\<close>

theorem list_route_sorted:
  "(\<exists>ps. list_route D req d = (\<lparr>status = 200, payload = Docs ps\<rparr>, logged Call_find d)
      \<and> (\<forall>i j. i < j \<and> j < length ps \<longrightarrow>
            (featured (ps ! j) \<longrightarrow> featured (ps ! i))
            \<and> (featured (ps ! i) = featured (ps ! j) \<longrightarrow> order (ps ! i) \<le> order (ps ! j))
            \<and> (featured (ps ! i) = featured (ps ! j) \<and> order (ps ! i) = order (ps ! j)
                 \<longrightarrow> createdAt (ps ! j) \<le> createdAt (ps ! i))))
   \<or> (\<exists>e d'. list_route D req d = (error_handler e, d')
        \<and> (query_q req = QOther
            \<or> (\<exists>s. query_q req = QStr s \<and> trim s \<noteq> [] \<and> store_match D (trim s) = None)))"
proof -
  have s: "(featured (sort_docs list_sort xs ! j) \<longrightarrow> featured (sort_docs list_sort xs ! i))
        \<and> (featured (sort_docs list_sort xs ! i) = featured (sort_docs list_sort xs ! j)
             \<longrightarrow> order (sort_docs list_sort xs ! i) \<le> order (sort_docs list_sort xs ! j))
        \<and> (featured (sort_docs list_sort xs ! i) = featured (sort_docs list_sort xs ! j)
             \<and> order (sort_docs list_sort xs ! i) = order (sort_docs list_sort xs ! j)
             \<longrightarrow> createdAt (sort_docs list_sort xs ! j) \<le> createdAt (sort_docs list_sort xs ! i))"
    if "i < j \<and> j < length (sort_docs list_sort xs)" for i j xs
    using sort_docs_nth [of i j xs] that spec_cmp_keys by blast
  from list_route_cases [of D req d] show ?thesis
  proof
    assume "\<exists>xs. list_route D req d
        = (\<lparr>status = 200, payload = Docs (sort_docs list_sort xs)\<rparr>, logged Call_find d)"
    then obtain xs where r: "list_route D req d
        = (\<lparr>status = 200, payload = Docs (sort_docs list_sort xs)\<rparr>, logged Call_find d)"
      by blast
    with s [of _ _ xs] show ?thesis by blast
  next
    assume "\<exists>e d'. list_route D req d = (error_handler e, d')
        \<and> (query_q req = QOther
            \<or> (\<exists>s. query_q req = QStr s \<and> trim s \<noteq> [] \<and> store_match D (trim s) = None))"
    then show ?thesis by blast
  qed
qed

text \<open>
  Claim C1, amended. With \<open>q\<close> absent or blank the list route returns all projects. With a
  \<open>q\<close> whose trimmed text holds no pattern metacharacter it returns exactly the projects
  whose title, description or some tech entry contains the trimmed text as a substring,
  compared without regard to case.
\<close>

theorem list_route_search:
  "(query_q req = QAbsent \<or> (\<exists>s. query_q req = QStr s \<and> trim s = []) \<longrightarrow>
      (\<exists>ps d'. list_route D req d = (\<lparr>status = 200, payload = Docs ps\<rparr>, d')
         \<and> mset ps = mset (docs d)))
   \<and> (query_q req = QStr s \<and> trim s \<noteq> [] \<and> (\<forall>c\<in>set (trim s). c \<notin> set metachars) \<longrightarrow>
      (\<exists>ps d'. list_route D req d = (\<lparr>status = 200, payload = Docs ps\<rparr>, d')
         \<and> mset ps = mset (filter (\<lambda>p.
              (\<exists>pre post. map lower_char (title p) = pre @ map lower_char (trim s) @ post)
              \<or> (\<exists>pre post. map lower_char (description p) = pre @ map lower_char (trim s) @ post)
              \<or> (\<exists>t\<in>set (tech p). \<exists>pre post. map lower_char t = pre @ map lower_char (trim s) @ post))
            (docs d))))"
proof -
  have a: "query_q req = QAbsent \<or> (\<exists>s. query_q req = QStr s \<and> trim s = []) \<longrightarrow>
      (\<exists>ps d'. list_route D req d = (\<lparr>status = 200, payload = Docs ps\<rparr>, d')
         \<and> mset ps = mset (docs d))"
    by (auto simp: list_route_def query_text_def db_find_def mset_sort_docs trim_def)
  have b: "query_q req = QStr s \<and> trim s \<noteq> [] \<and> (\<forall>c\<in>set (trim s). c \<notin> set metachars) \<longrightarrow>
      (\<exists>ps d'. list_route D req d = (\<lparr>status = 200, payload = Docs ps\<rparr>, d')
         \<and> mset ps = mset (filter (\<lambda>p.
              (\<exists>pre post. map lower_char (title p) = pre @ map lower_char (trim s) @ post)
              \<or> (\<exists>pre post. map lower_char (description p) = pre @ map lower_char (trim s) @ post)
              \<or> (\<exists>t\<in>set (tech p). \<exists>pre post. map lower_char t = pre @ map lower_char (trim s) @ post))
            (docs d)))"
  proof
    assume h: "query_q req = QStr s \<and> trim s \<noteq> [] \<and> (\<forall>c\<in>set (trim s). c \<notin> set metachars)"
    then have c: "store_match D (trim s) = Some (regex_search (map PChar (trim s)))"
      using store_match_plain by blast
    from h c have "list_route D req d =
        (\<lparr>status = 200,
          payload = Docs (sort_docs list_sort
                            (filter (doc_matches (regex_search (map PChar (trim s)))) (docs d)))\<rparr>,
         logged Call_find d)"
      by (simp add: list_route_def query_text_def db_find_def)
    then show "\<exists>ps d'. list_route D req d = (\<lparr>status = 200, payload = Docs ps\<rparr>, d')
         \<and> mset ps = mset (filter (\<lambda>p.
              (\<exists>pre post. map lower_char (title p) = pre @ map lower_char (trim s) @ post)
              \<or> (\<exists>pre post. map lower_char (description p) = pre @ map lower_char (trim s) @ post)
              \<or> (\<exists>t\<in>set (tech p). \<exists>pre post. map lower_char t = pre @ map lower_char (trim s) @ post))
            (docs d))"
      by (simp add: mset_sort_docs doc_matches_plain)
  qed
  from a b show ?thesis by blast
qed

text \<open>
  The query text is a pattern, not a literal: \<open>q = .\<close> returns a project none of whose
  fields contains a full stop.
\<close>

theorem list_route_dot:
  "list_route test_deps (test_request\<lparr>query_q := QStr ''.''\<rparr>) test_db
     = (\<lparr>status = 200, payload = Docs [test_project]\<rparr>, test_db\<lparr>calls := [Call_find]\<rparr>)
   \<and> CHR ''.'' \<notin> set (title test_project)
   \<and> CHR ''.'' \<notin> set (description test_project)
   \<and> CHR ''.'' \<notin> set (concat (tech test_project))"
  by (simp add: list_route_def query_text_def db_find_def store_match_def test_request_def
      test_db_def test_project_def trim_def is_space_def sort_docs_def doc_matches_def logged_def)

theorem list_route_sorted_witness:
  "list_route test_deps test_request
     \<lparr>docs = [test_project,
              test_project\<lparr>featured := True, order := 2, createdAt := 50\<rparr>,
              test_project\<lparr>featured := True, order := 2, createdAt := 70\<rparr>,
              test_project\<lparr>featured := True, order := 1, createdAt := 10\<rparr>],
      calls = []\<rparr>
   = (\<lparr>status = 200,
       payload = Docs [test_project\<lparr>featured := True, order := 1, createdAt := 10\<rparr>,
                       test_project\<lparr>featured := True, order := 2, createdAt := 70\<rparr>,
                       test_project\<lparr>featured := True, order := 2, createdAt := 50\<rparr>,
                       test_project]\<rparr>,
      \<lparr>docs = [test_project,
               test_project\<lparr>featured := True, order := 2, createdAt := 50\<rparr>,
               test_project\<lparr>featured := True, order := 2, createdAt := 70\<rparr>,
               test_project\<lparr>featured := True, order := 1, createdAt := 10\<rparr>],
       calls = [Call_find]\<rparr>)
   \<and> list_route test_deps (test_request\<lparr>query_q := QStr ''a+''\<rparr>)
       \<lparr>docs = [test_project\<lparr>title := ''xyz'', description := ''q''\<rparr>,
                test_project,
                test_project\<lparr>featured := True\<rparr>],
        calls = []\<rparr>
     = (\<lparr>status = 200, payload = Docs [test_project\<lparr>featured := True\<rparr>, test_project]\<rparr>,
        \<lparr>docs = [test_project\<lparr>title := ''xyz'', description := ''q''\<rparr>,
                 test_project,
                 test_project\<lparr>featured := True\<rparr>],
         calls = [Call_find]\<rparr>)
   \<and> (\<exists>ps. list_route test_deps (test_request\<lparr>query_q := QStr ''a+''\<rparr>)
              \<lparr>docs = [test_project\<lparr>title := ''xyz'', description := ''q''\<rparr>,
                       test_project,
                       test_project\<lparr>featured := True\<rparr>],
               calls = []\<rparr>
            = (\<lparr>status = 200, payload = Docs ps\<rparr>,
               logged Call_find
                 \<lparr>docs = [test_project\<lparr>title := ''xyz'', description := ''q''\<rparr>,
                          test_project,
                          test_project\<lparr>featured := True\<rparr>],
                  calls = []\<rparr>)
         \<and> (\<forall>i j. i < j \<and> j < length ps \<longrightarrow>
               (featured (ps ! j) \<longrightarrow> featured (ps ! i))
               \<and> (featured (ps ! i) = featured (ps ! j) \<longrightarrow> order (ps ! i) \<le> order (ps ! j))
               \<and> (featured (ps ! i) = featured (ps ! j) \<and> order (ps ! i) = order (ps ! j)
                    \<longrightarrow> createdAt (ps ! j) \<le> createdAt (ps ! i))))
   \<and> list_route test_deps (test_request\<lparr>query_q := QStr ''(''\<rparr>) test_db
     = (\<lparr>status = 500, payload = ErrorMessage RegexError\<rparr>, test_db\<lparr>calls := [Call_find]\<rparr>)"
proof -
  have a: "list_route test_deps test_request
     \<lparr>docs = [test_project,
              test_project\<lparr>featured := True, order := 2, createdAt := 50\<rparr>,
              test_project\<lparr>featured := True, order := 2, createdAt := 70\<rparr>,
              test_project\<lparr>featured := True, order := 1, createdAt := 10\<rparr>],
      calls = []\<rparr>
   = (\<lparr>status = 200,
       payload = Docs [test_project\<lparr>featured := True, order := 1, createdAt := 10\<rparr>,
                       test_project\<lparr>featured := True, order := 2, createdAt := 70\<rparr>,
                       test_project\<lparr>featured := True, order := 2, createdAt := 50\<rparr>,
                       test_project]\<rparr>,
      \<lparr>docs = [test_project,
               test_project\<lparr>featured := True, order := 2, createdAt := 50\<rparr>,
               test_project\<lparr>featured := True, order := 2, createdAt := 70\<rparr>,
               test_project\<lparr>featured := True, order := 1, createdAt := 10\<rparr>],
       calls = [Call_find]\<rparr>)"
    by (simp add: list_route_def query_text_def db_find_def test_request_def
        test_project_def trim_def sort_docs_def logged_def list_sort_def cmp3_def)
  have b: "list_route test_deps (test_request\<lparr>query_q := QStr ''a+''\<rparr>)
       \<lparr>docs = [test_project\<lparr>title := ''xyz'', description := ''q''\<rparr>,
                test_project,
                test_project\<lparr>featured := True\<rparr>],
        calls = []\<rparr>
     = (\<lparr>status = 200, payload = Docs [test_project\<lparr>featured := True\<rparr>, test_project]\<rparr>,
        \<lparr>docs = [test_project\<lparr>title := ''xyz'', description := ''q''\<rparr>,
                 test_project,
                 test_project\<lparr>featured := True\<rparr>],
         calls = [Call_find]\<rparr>)"
    by (simp add: list_route_def query_text_def db_find_def store_match_def metachars_def
        test_deps_def test_request_def test_project_def trim_def is_space_def sort_docs_def
        doc_matches_def logged_def list_sort_def cmp3_def lower_char_def)
  have c: "list_route test_deps (test_request\<lparr>query_q := QStr ''(''\<rparr>) test_db
     = (\<lparr>status = 500, payload = ErrorMessage RegexError\<rparr>, test_db\<lparr>calls := [Call_find]\<rparr>)"
    by (simp add: list_route_def query_text_def db_find_def store_match_def metachars_def
        test_deps_def test_request_def test_db_def trim_def is_space_def logged_def
        error_handler_def)
  let ?req = "test_request\<lparr>query_q := QStr ''a+''\<rparr>"
  let ?d = "\<lparr>docs = [test_project\<lparr>title := ''xyz'', description := ''q''\<rparr>,
                test_project,
                test_project\<lparr>featured := True\<rparr>],
        calls = []\<rparr>"
  let ?A = "\<exists>ps. list_route test_deps ?req ?d
            = (\<lparr>status = 200, payload = Docs ps\<rparr>, logged Call_find ?d)
         \<and> (\<forall>i j. i < j \<and> j < length ps \<longrightarrow>
               (featured (ps ! j) \<longrightarrow> featured (ps ! i))
               \<and> (featured (ps ! i) = featured (ps ! j) \<longrightarrow> order (ps ! i) \<le> order (ps ! j))
               \<and> (featured (ps ! i) = featured (ps ! j) \<and> order (ps ! i) = order (ps ! j)
                    \<longrightarrow> createdAt (ps ! j) \<le> createdAt (ps ! i)))"
  let ?B = "\<exists>e d'. list_route test_deps ?req ?d = (error_handler e, d')
        \<and> (query_q ?req = QOther
            \<or> (\<exists>s. query_q ?req = QStr s \<and> trim s \<noteq> [] \<and> store_match test_deps (trim s) = None))"
  have n: "\<not> ?B"
    unfolding b by (simp add: error_handler_def)
  have s: ?A
  proof (rule disjE [OF list_route_sorted [of test_deps ?req ?d]])
    assume ?A
    then show ?thesis .
  next
    assume ?B
    with n show ?thesis by (rule notE)
  qed
  from a b s c show ?thesis by (intro conjI)
qed

theorem list_route_search_witness:
  "(\<exists>ps d'. list_route test_deps test_request test_db = (\<lparr>status = 200, payload = Docs ps\<rparr>, d')
      \<and> mset ps = mset (docs test_db))
   \<and> (\<exists>ps d'. list_route test_deps (test_request\<lparr>query_q := QStr '' B ''\<rparr>) test_db
          = (\<lparr>status = 200, payload = Docs ps\<rparr>, d')
      \<and> mset ps = mset (filter (\<lambda>p.
              (\<exists>pre post. map lower_char (title p) = pre @ map lower_char ''B'' @ post)
              \<or> (\<exists>pre post. map lower_char (description p) = pre @ map lower_char ''B'' @ post)
              \<or> (\<exists>t\<in>set (tech p). \<exists>pre post. map lower_char t = pre @ map lower_char ''B'' @ post))
            (docs test_db)))
   \<and> list_route test_deps (test_request\<lparr>query_q := QStr '' B ''\<rparr>) test_db
       = (\<lparr>status = 200, payload = Docs [test_project]\<rparr>, test_db\<lparr>calls := [Call_find]\<rparr>)"
proof -
  have t: "trim '' B '' = ''B''"
    by (simp add: trim_def is_space_def)
  have a: "query_q test_request = QAbsent"
    by (simp add: test_request_def)
  have b: "query_q (test_request\<lparr>query_q := QStr '' B ''\<rparr>) = QStr '' B '' \<and> trim '' B '' \<noteq> []
           \<and> (\<forall>c\<in>set (trim '' B ''). c \<notin> set metachars)"
    by (simp add: t metachars_def)
  have c: "list_route test_deps (test_request\<lparr>query_q := QStr '' B ''\<rparr>) test_db
       = (\<lparr>status = 200, payload = Docs [test_project]\<rparr>, test_db\<lparr>calls := [Call_find]\<rparr>)"
    by (simp add: list_route_def query_text_def db_find_def store_match_def test_request_def
        test_db_def test_project_def t metachars_def sort_docs_def doc_matches_def logged_def
        lower_char_def)
  from list_route_search [of test_request test_deps test_db] a
    list_route_search [of "test_request\<lparr>query_q := QStr '' B ''\<rparr>" test_deps test_db "'' B ''"] b c
  show ?thesis unfolding t by blast
qed

section \<open>Properties of the bearer-token check\<close>

lemma starts_with_append: "starts_with pre (pre @ t)"
  by (simp add: starts_with_def)

lemma verifyToken_denied:
  assumes "hdr = None \<or> (\<exists>h. hdr = Some h \<and> \<not> starts_with ''Bearer '' h)
           \<or> (\<exists>t. hdr = Some (''Bearer '' @ t) \<and> (t = [] \<or> jwt_verify D t (secret D) = None))"
  shows "\<exists>msg. verifyToken D hdr = Inl (message_response 401 msg)"
  using assms
  by (auto simp: verifyToken_def bearer_token_def starts_with_def split: option.splits)

lemma verifyToken_accepts:
  assumes "hdr = Some (''Bearer '' @ t)" and "t \<noteq> []" and "jwt_verify D t (secret D) = Some decoded"
  shows "verifyToken D hdr =
           Inr (prop_or (prop_or (prop_or (decoded_prop decoded ''id'') (decoded_prop decoded ''_id''))
                                 (decoded_prop decoded ''sub'')) (Own JNull))"
  using assms by (simp add: verifyToken_def bearer_token_def starts_with_def)

lemma status_message_response: "status (message_response code msg) = code"
  by (simp add: message_response_def)

lemma status_error_handler: "status (error_handler e) = 500"
  by (simp add: error_handler_def)

lemma handleValidation_status: "handleValidation D errs = Some r \<Longrightarrow> status r = 400"
  by (auto simp: handleValidation_def split: if_splits)

lemma create_route_authorized:
  "verifyToken D (authorization req) = Inr u \<Longrightarrow>
   status (fst (create_route D new_id now req d)) \<in> {500, 400, 201}"
  by (auto simp: create_route_def status_error_handler db_create_def Let_def
      dest: handleValidation_status split: sum.splits option.splits prod.splits)

lemma update_route_authorized:
  "verifyToken D (authorization req) = Inr u \<Longrightarrow>
   status (fst (update_route D req d)) \<in> {500, 400, 404, 200}"
  by (auto simp: update_route_def status_error_handler status_message_response db_save_def Let_def
      dest: handleValidation_status split: sum.splits option.splits prod.splits)

lemma delete_route_authorized:
  "verifyToken D (authorization req) = Inr u \<Longrightarrow>
   status (fst (delete_route D req d)) \<in> {500, 400, 404, 200}"
  by (auto simp: delete_route_def status_error_handler status_message_response
      dest: handleValidation_status split: sum.splits option.splits prod.splits)

text \<open>
  Claim C4. A create, update or delete request with no authorization header, with a
  header that does not start with \<open>Bearer \<close>, with an empty token, or with a token that
  the verifier refuses is answered 401, and the store comes back as it was: no document
  changed and no call logged.
\<close>

theorem mutations_need_token:
  assumes "authorization req = None
           \<or> (\<exists>h. authorization req = Some h \<and> \<not> starts_with ''Bearer '' h)
           \<or> (\<exists>t. authorization req = Some (''Bearer '' @ t)
                 \<and> (t = [] \<or> jwt_verify D t (secret D) = None))"
  shows "(\<exists>res. create_route D new_id now req d = (res, d) \<and> status res = 401)
         \<and> (\<exists>res. update_route D req d = (res, d) \<and> status res = 401)
         \<and> (\<exists>res. delete_route D req d = (res, d) \<and> status res = 401)"
proof -
  obtain msg where v: "verifyToken D (authorization req) = Inl (message_response 401 msg)"
    using verifyToken_denied [OF assms] by blast
  have "create_route D new_id now req d = (message_response 401 msg, d)"
    by (simp add: create_route_def v)
  moreover have "update_route D req d = (message_response 401 msg, d)"
    by (simp add: update_route_def v)
  moreover have "delete_route D req d = (message_response 401 msg, d)"
    by (simp add: delete_route_def v)
  ultimately show ?thesis by (simp add: status_message_response)
qed

theorem mutations_need_token_witness:
  "create_route test_deps ''0123456789abcdef01234568'' 200 test_request test_db
     = (message_response 401 ''Token manquant'', test_db)
   \<and> update_route test_deps (test_request\<lparr>authorization := Some ''Basic abc''\<rparr>) test_db
     = (message_response 401 ''Token manquant'', test_db)
   \<and> delete_route test_deps (test_request\<lparr>authorization := Some ''Bearer forged''\<rparr>) test_db
     = (message_response 401 ''Token invalide'', test_db)
   \<and> (\<exists>res. delete_route test_deps (test_request\<lparr>authorization := Some ''Bearer forged''\<rparr>) test_db
          = (res, test_db) \<and> status res = 401)"
proof -
  have "authorization (test_request\<lparr>authorization := Some ''Bearer forged''\<rparr>) = Some (''Bearer '' @ ''forged'')
        \<and> jwt_verify test_deps ''forged'' (secret test_deps) = None"
    by (simp add: test_deps_def secret_def)
  then have "\<exists>res. delete_route test_deps (test_request\<lparr>authorization := Some ''Bearer forged''\<rparr>) test_db
          = (res, test_db) \<and> status res = 401"
    using mutations_need_token [of "test_request\<lparr>authorization := Some ''Bearer forged''\<rparr>" test_deps _ _ test_db]
    by blast
  moreover have "create_route test_deps ''0123456789abcdef01234568'' 200 test_request test_db
     = (message_response 401 ''Token manquant'', test_db)"
    by (simp add: create_route_def verifyToken_def bearer_token_def starts_with_def test_request_def)
  moreover have "update_route test_deps (test_request\<lparr>authorization := Some ''Basic abc''\<rparr>) test_db
     = (message_response 401 ''Token manquant'', test_db)"
    by (simp add: update_route_def verifyToken_def bearer_token_def starts_with_def test_request_def)
  moreover have "delete_route test_deps (test_request\<lparr>authorization := Some ''Bearer forged''\<rparr>) test_db
     = (message_response 401 ''Token invalide'', test_db)"
    by (simp add: delete_route_def verifyToken_def bearer_token_def starts_with_def test_request_def
        test_deps_def secret_def)
  ultimately show ?thesis by blast
qed

text \<open>
  Claim C10, amended. A bearer token that verifies passes the token check whatever its
  payload holds; when the payload is an object with none of the claims \<open>id\<close>, \<open>_id\<close> and
  \<open>sub\<close> the user id is \<open>null\<close>; and the route behind the check runs, so none of the
  three mutating routes answers 401.
\<close>

theorem token_without_subject:
  assumes "authorization req = Some (''Bearer '' @ t)" and "t \<noteq> []"
    and "jwt_verify D t (secret D) = Some decoded"
  shows "(\<exists>u. verifyToken D (authorization req) = Inr u)
         \<and> ((\<exists>kvs. decoded = PayloadObj kvs \<and> ''id'' \<notin> fst ` set kvs \<and> ''_id'' \<notin> fst ` set kvs
                    \<and> ''sub'' \<notin> fst ` set kvs)
              \<longrightarrow> verifyToken D (authorization req) = Inr (Own JNull))
         \<and> status (fst (create_route D new_id now req d)) \<noteq> 401
         \<and> status (fst (update_route D req d)) \<noteq> 401
         \<and> status (fst (delete_route D req d)) \<noteq> 401"
proof -
  let ?u = "prop_or (prop_or (prop_or (decoded_prop decoded ''id'') (decoded_prop decoded ''_id''))
                             (decoded_prop decoded ''sub'')) (Own JNull)"
  have v: "verifyToken D (authorization req) = Inr ?u"
    using verifyToken_accepts [OF assms] .
  have n: "?u = Own JNull"
    if "\<exists>kvs. decoded = PayloadObj kvs \<and> ''id'' \<notin> fst ` set kvs \<and> ''_id'' \<notin> fst ` set kvs
               \<and> ''sub'' \<notin> fst ` set kvs"
    using that by (auto simp: decoded_prop_def object_prototype_def prop_or_def truthy_prop_def)
  have "status (fst (create_route D new_id now req d)) \<noteq> 401"
    using create_route_authorized [OF v, of new_id now d] by auto
  moreover have "status (fst (update_route D req d)) \<noteq> 401"
    using update_route_authorized [OF v, of d] by auto
  moreover have "status (fst (delete_route D req d)) \<noteq> 401"
    using delete_route_authorized [OF v, of d] by auto
  ultimately show ?thesis using v n by auto
qed

text \<open>
  A payload that is a plain string has none of the three claims, yet the user id is not
  \<open>null\<close>: a string inherits the method \<open>sub\<close>, and the check takes it for the claim.
\<close>

theorem token_string_payload:
  "jwt_verify test_deps ''text'' (secret test_deps) = Some (PayloadStr ''hello'')
   \<and> verifyToken test_deps (Some ''Bearer text'') = Inr (Inherited ''sub'')"
  by (simp add: verifyToken_def bearer_token_def starts_with_def test_deps_def secret_def
      decoded_prop_def string_prototype_def object_prototype_def prop_or_def truthy_prop_def)

theorem token_without_subject_witness:
  "verifyToken test_deps (Some ''Bearer anon'') = Inr (Own JNull)
   \<and> status (fst (delete_route test_deps
        (test_request\<lparr>authorization := Some ''Bearer anon'', id_param := ''0123456789abcdef01234567''\<rparr>)
        test_db)) \<noteq> 401
   \<and> delete_route test_deps
        (test_request\<lparr>authorization := Some ''Bearer anon'', id_param := ''0123456789abcdef01234567''\<rparr>)
        test_db
      = (\<lparr>status = 200,
          payload = Json (JObj [(''ok'', JBool True), (''id'', JStr ''0123456789abcdef01234567'')])\<rparr>,
         \<lparr>docs = [], calls = [Call_findByIdAndDelete ''0123456789abcdef01234567'']\<rparr>)"
proof -
  let ?req = "test_request\<lparr>authorization := Some ''Bearer anon'', id_param := ''0123456789abcdef01234567''\<rparr>"
  have a: "authorization ?req = Some (''Bearer '' @ ''anon'')" by simp
  have b: "''anon'' \<noteq> []" by simp
  have c: "jwt_verify test_deps ''anon'' (secret test_deps) = Some (PayloadObj [(''iat'', JNum 1)])"
    by (simp add: test_deps_def secret_def)
  have e: "delete_route test_deps ?req test_db
      = (\<lparr>status = 200,
          payload = Json (JObj [(''ok'', JBool True), (''id'', JStr ''0123456789abcdef01234567'')])\<rparr>,
         \<lparr>docs = [], calls = [Call_findByIdAndDelete ''0123456789abcdef01234567'']\<rparr>)"
    by (simp add: delete_route_def verifyToken_def bearer_token_def starts_with_def test_request_def
        test_deps_def secret_def idRules_def run_rule_def rule_value_def request_fields_def get_field_def
        skipped_def std_validate_def values_of_def ev_toString_def is_hex_digit_def
        validator_isMongoId_def isHexadecimal_def lookup_def
        handleValidation_def db_findByIdAndDelete_def test_db_def test_project_def logged_def
        set_field_def)
  from token_without_subject [OF a b c, of _ _ test_db] e show ?thesis by simp
qed

section \<open>Properties of the get route\<close>






section \<open>Properties of image ingestion\<close>

lemma base64_rfc4648:
  "base64 [] = []"
  "base64 [0x66] = ''Zg==''"
  "base64 [0x66, 0x6f] = ''Zm8=''"
  "base64 [0x66, 0x6f, 0x6f] = ''Zm9v''"
  "base64 [0x66, 0x6f, 0x6f, 0x62] = ''Zm9vYg==''"
  "base64 [0x66, 0x6f, 0x6f, 0x62, 0x61, 0x72] = ''Zm9vYmFy''"
  by (simp_all add: b64_char_def)

lemma length_base64: "length (base64 bs) = 4 * ((length bs + 2) div 3)"
proof (induction bs rule: base64.induct)
  case (4 a b c rest)
  have "(length (a # b # c # rest) + 2) div 3 = Suc ((length rest + 2) div 3)"
    by simp
  with 4 show ?case by (simp add: Let_def)
qed (simp_all add: Let_def)

lemmas merge_defs =
  merge_title_def merge_description_def merge_tech_def merge_githubUrl_def merge_demoUrl_def
  merge_featured_def merge_order_def merge_coverImage_def

lemma merge_proj_id:
  "proj_id (merge_title v p) = proj_id p"
  "proj_id (merge_description v p) = proj_id p"
  "proj_id (merge_tech v p) = proj_id p"
  "proj_id (merge_githubUrl v p) = proj_id p"
  "proj_id (merge_demoUrl v p) = proj_id p"
  "proj_id (merge_featured v p) = proj_id p"
  "proj_id (merge_order v p) = proj_id p"
  "proj_id (merge_coverImage file p) = proj_id p"
  by (simp_all add: merge_defs split: jsval.splits option.splits)

lemma apply_update_proj_id: "proj_id (apply_update p b file) = proj_id p"
  by (simp add: apply_update_def merge_proj_id)

lemma mimetype_test_nonempty: "mimetype_test m \<Longrightarrow> m \<noteq> []"
  by (auto simp: mimetype_test_def)

lemma text_plain_refused: "\<not> mimetype_test ''text/plain''"
  by (simp add: mimetype_test_def lower_char_def)

lemma image_png_accepted: "mimetype_test ''image/png''"
  by (simp add: mimetype_test_def lower_char_def)

lemma upload_single_refused:
  assumes "mimetype f = ''text/plain'' \<or> length (buffer f) = 4 * 1024 * 1024 + 1"
  shows "\<exists>msg. upload_single (Some f) = Inl msg"
  using assms text_plain_refused
  by (auto simp: upload_single_def fileFilter_def fileSize_def)

lemma upload_single_accepted:
  assumes "mimetype_test (mimetype f)" and "length (buffer f) \<le> 4 * 1024 * 1024"
  shows "upload_single (Some f) = Inr (Some f)"
  using assms by (simp add: upload_single_def fileFilter_def fileSize_def)

lemma bufferToDataUrl_accepted:
  "mimetype_test (mimetype f) \<Longrightarrow>
   bufferToDataUrl (Some f) = Some (''data:'' @ mimetype f @ '';base64,'' @ base64 (buffer f))"
  by (simp add: bufferToDataUrl_def Let_def mimetype_test_nonempty)

lemma verifyToken_status: "verifyToken D hdr = Inl res \<Longrightarrow> status res = 401"
  by (auto simp: verifyToken_def message_response_def split: option.splits if_splits)

text \<open>
  Claim C5. On create and on update, a file declared \<open>text/plain\<close>, or one of exactly
  4 MiB + 1 bytes, is refused with the store as it was (the answer is 401 when the token
  check refuses first, 500 otherwise). A file declared \<open>image/png\<close> of at most 4 MiB, on a
  request that passes the token check and the rules, is stored as the cover image
  \<open>data:image/png;base64,\<close> followed by the base64 text of its bytes. Every accepted
  declared type is copied into the data URL as it was declared.
\<close>

theorem upload_checked:
  "(file_part req = Some f
      \<and> (mimetype f = ''text/plain'' \<or> length (buffer f) = 4 * 1024 * 1024 + 1) \<longrightarrow>
      (\<exists>res. create_route D new_id now req d = (res, d) \<and> status res \<in> {401, 500})
      \<and> (\<exists>res. update_route D req d = (res, d) \<and> status res \<in> {401, 500}))
   \<and> (file_part req = Some f \<and> mimetype f = ''image/png''
        \<and> length (buffer f) \<le> 4 * 1024 * 1024
        \<and> verifyToken D (authorization req) = Inr u
        \<and> run_rules D createRules (request_fields req) = Inr ([], F) \<longrightarrow>
      (\<exists>p d'. create_route D new_id now req d = (\<lparr>status = 201, payload = Doc p\<rparr>, d')
         \<and> coverImage p = Some (''data:image/png;base64,'' @ base64 (buffer f))
         \<and> docs d' = docs d @ [p]))
   \<and> (file_part req = Some f \<and> mimetype f = ''image/png''
        \<and> length (buffer f) \<le> 4 * 1024 * 1024
        \<and> verifyToken D (authorization req) = Inr u
        \<and> run_rules D updateRules (request_fields req) = Inr ([], F)
        \<and> find (\<lambda>p. proj_id p = id_param req) (docs d) = Some p0 \<longrightarrow>
      (\<exists>p d'. update_route D req d = (\<lparr>status = 200, payload = Doc p\<rparr>, d')
         \<and> coverImage p = Some (''data:image/png;base64,'' @ base64 (buffer f))
         \<and> p \<in> set (docs d')))
   \<and> (mimetype_test (mimetype f) \<longrightarrow>
        bufferToDataUrl (Some f) = Some (''data:'' @ mimetype f @ '';base64,'' @ base64 (buffer f)))"
proof -
  have a: "(\<exists>res. create_route D new_id now req d = (res, d) \<and> status res \<in> {401, 500})
      \<and> (\<exists>res. update_route D req d = (res, d) \<and> status res \<in> {401, 500})"
    if h: "file_part req = Some f
      \<and> (mimetype f = ''text/plain'' \<or> length (buffer f) = 4 * 1024 * 1024 + 1)"
  proof -
    from h obtain msg where m: "upload_single (file_part req) = Inl msg"
      using upload_single_refused [of f] by auto
    show ?thesis
    proof (cases "verifyToken D (authorization req)")
      case (Inl res)
      then show ?thesis
        by (simp add: create_route_def update_route_def verifyToken_status)
    next
      case (Inr user)
      with m show ?thesis
        by (simp add: create_route_def update_route_def error_handler_def)
    qed
  qed
  have png: "bufferToDataUrl (Some f) = Some (''data:image/png;base64,'' @ base64 (buffer f))"
    if "mimetype f = ''image/png''"
    using that bufferToDataUrl_accepted [of f] image_png_accepted by simp
  have b: "\<exists>p d'. create_route D new_id now req d = (\<lparr>status = 201, payload = Doc p\<rparr>, d')
         \<and> coverImage p = Some (''data:image/png;base64,'' @ base64 (buffer f))
         \<and> docs d' = docs d @ [p]"
    if h: "file_part req = Some f \<and> mimetype f = ''image/png''
        \<and> length (buffer f) \<le> 4 * 1024 * 1024
        \<and> verifyToken D (authorization req) = Inr u
        \<and> run_rules D createRules (request_fields req) = Inr ([], F)"
  proof -
    from h have up: "upload_single (file_part req) = Inr (Some f)"
      using upload_single_accepted [of f] image_png_accepted by simp
    from h up png show ?thesis
      by (simp add: create_route_def handleValidation_def db_create_def logged_def Let_def)
  qed
  have c: "\<exists>p d'. update_route D req d = (\<lparr>status = 200, payload = Doc p\<rparr>, d')
         \<and> coverImage p = Some (''data:image/png;base64,'' @ base64 (buffer f))
         \<and> p \<in> set (docs d')"
    if h: "file_part req = Some f \<and> mimetype f = ''image/png''
        \<and> length (buffer f) \<le> 4 * 1024 * 1024
        \<and> verifyToken D (authorization req) = Inr u
        \<and> run_rules D updateRules (request_fields req) = Inr ([], F)
        \<and> find (\<lambda>p. proj_id p = id_param req) (docs d) = Some p0"
  proof -
    from h have up: "upload_single (file_part req) = Inr (Some f)"
      using upload_single_accepted [of f] image_png_accepted by simp
    from h have p0: "p0 \<in> set (docs d)" and id0: "proj_id p0 = id_param req"
      by (auto simp: find_Some_iff in_set_conv_nth)
    let ?p = "apply_update p0 (in_body F) (Some f)"
    have pid: "proj_id ?p = proj_id p0"
      by (rule apply_update_proj_id)
    have cov: "coverImage ?p = Some (''data:image/png;base64,'' @ base64 (buffer f))"
      using h png by (simp add: apply_update_def merge_coverImage_def)
    have r: "update_route D req d
        = (\<lparr>status = 200, payload = Doc ?p\<rparr>,
           logged (Call_save (proj_id ?p))
             ((logged (Call_findById (id_param req)) d)
                \<lparr>docs := map (\<lambda>x. if proj_id x = proj_id ?p then ?p else x)
                    (docs (logged (Call_findById (id_param req)) d))\<rparr>))"
      using h up
      by (simp add: update_route_def handleValidation_def db_findById_def lookup_def db_save_def)
    have "?p \<in> set (map (\<lambda>x. if proj_id x = proj_id ?p then ?p else x) (docs d))"
      using p0 pid by force
    with r cov show ?thesis by (simp add: logged_def)
  qed
  from a b c bufferToDataUrl_accepted [of f] show ?thesis by blast
qed

lemmas rule_eval =
  run_rule_def rule_value_def get_field_def set_field_def skipped_def std_validate_def std_sanitize_def
  values_of_def ev_toString_def request_fields_def Let_def

theorem upload_checked_witness:
  "(\<exists>res. create_route test_deps ''0123456789abcdef01234568'' 200
       (test_request\<lparr>authorization := Some ''Bearer good'',
                      file_part := Some \<lparr>mimetype = ''text/plain'', buffer = [0x68, 0x69]\<rparr>\<rparr>)
       test_db = (res, test_db) \<and> status res \<in> {401, 500})
   \<and> (\<exists>res. update_route test_deps
       (test_request\<lparr>authorization := Some ''Bearer good'',
                      file_part := Some \<lparr>mimetype = ''image/png'', buffer = replicate 4194305 0\<rparr>\<rparr>)
       test_db = (res, test_db) \<and> status res \<in> {401, 500})
   \<and> create_route test_deps ''0123456789abcdef01234568'' 200
       (test_request\<lparr>authorization := Some ''Bearer good'',
                      body := (\<lambda>k. JUndefined)(''title'' := JStr ''My title'',
                                                  ''description'' := JStr ''0123456789''),
                      file_part := Some \<lparr>mimetype = ''image/png'', buffer = [0x4d, 0x61, 0x6e, 0x66]\<rparr>\<rparr>)
       test_db
     = (\<lparr>status = 201,
         payload = Doc \<lparr>proj_id = ''0123456789abcdef01234568'', title = ''My title'',
                         description = ''0123456789'', tech = [], githubUrl = [], demoUrl = [],
                         featured = False, order = 0,
                         coverImage = Some ''data:image/png;base64,TWFuZg=='', createdAt = 200\<rparr>\<rparr>,
        \<lparr>docs = [test_project,
                 \<lparr>proj_id = ''0123456789abcdef01234568'', title = ''My title'',
                    description = ''0123456789'', tech = [], githubUrl = [], demoUrl = [],
                    featured = False, order = 0,
                    coverImage = Some ''data:image/png;base64,TWFuZg=='', createdAt = 200\<rparr>],
           calls = [Call_create]\<rparr>)
   \<and> (\<exists>p d'. create_route test_deps ''0123456789abcdef01234568'' 200
       (test_request\<lparr>authorization := Some ''Bearer good'',
                      body := (\<lambda>k. JUndefined)(''title'' := JStr ''My title'',
                                                  ''description'' := JStr ''0123456789''),
                      file_part := Some \<lparr>mimetype = ''image/png'', buffer = [0x4d, 0x61, 0x6e, 0x66]\<rparr>\<rparr>)
       test_db = (\<lparr>status = 201, payload = Doc p\<rparr>, d')
       \<and> coverImage p = Some (''data:image/png;base64,''
             @ base64 (buffer \<lparr>mimetype = ''image/png'', buffer = [0x4d, 0x61, 0x6e, 0x66 :: byte]\<rparr>))
       \<and> docs d' = docs test_db @ [p])"
proof -
  let ?txt = "test_request\<lparr>authorization := Some ''Bearer good'',
                      file_part := Some \<lparr>mimetype = ''text/plain'', buffer = [0x68, 0x69]\<rparr>\<rparr>"
  let ?big = "test_request\<lparr>authorization := Some ''Bearer good'',
                      file_part := Some \<lparr>mimetype = ''image/png'', buffer = replicate 4194305 0\<rparr>\<rparr>"
  let ?png = "test_request\<lparr>authorization := Some ''Bearer good'',
                      body := (\<lambda>k. JUndefined)(''title'' := JStr ''My title'',
                                                  ''description'' := JStr ''0123456789''),
                      file_part := Some \<lparr>mimetype = ''image/png'', buffer = [0x4d, 0x61, 0x6e, 0x66]\<rparr>\<rparr>"
  let ?f = "\<lparr>mimetype = ''image/png'', buffer = [0x4d, 0x61, 0x6e, 0x66 :: byte]\<rparr>"
  have a: "file_part ?txt = Some \<lparr>mimetype = ''text/plain'', buffer = [0x68, 0x69]\<rparr>
           \<and> (mimetype \<lparr>mimetype = ''text/plain'', buffer = [0x68, 0x69 :: byte]\<rparr> = ''text/plain''
                \<or> length (buffer \<lparr>mimetype = ''text/plain'', buffer = [0x68, 0x69 :: byte]\<rparr>)
                    = 4 * 1024 * 1024 + 1)"
    by simp
  have b: "file_part ?big = Some \<lparr>mimetype = ''image/png'', buffer = replicate 4194305 0\<rparr>
           \<and> (mimetype \<lparr>mimetype = ''image/png'', buffer = replicate 4194305 (0 :: byte)\<rparr> = ''text/plain''
                \<or> length (buffer \<lparr>mimetype = ''image/png'', buffer = replicate 4194305 (0 :: byte)\<rparr>)
                    = 4 * 1024 * 1024 + 1)"
    by simp
  have v: "verifyToken test_deps (authorization ?png) = Inr (Own (JStr ''u1''))"
    by (simp add: verifyToken_def bearer_token_def starts_with_def test_deps_def secret_def
        decoded_prop_def js_get_def prop_or_def truthy_prop_def)
  have r: "\<exists>F. run_rules test_deps createRules (request_fields ?png) = Inr ([], F)"
    by (simp add: createRules_def rule_eval test_request_def trim_def is_space_def)
  then obtain F where rF: "run_rules test_deps createRules (request_fields ?png) = Inr ([], F)"
    by blast
  have c: "file_part ?png = Some ?f \<and> mimetype ?f = ''image/png''
           \<and> length (buffer ?f) \<le> 4 * 1024 * 1024
           \<and> verifyToken test_deps (authorization ?png) = Inr (Own (JStr ''u1''))
           \<and> run_rules test_deps createRules (request_fields ?png) = Inr ([], F)"
    using v rF by simp
  have b64: "base64 (buffer ?f) = ''TWFuZg==''"
    by (simp add: b64_char_def)
  have fields: "in_body F ''title'' = JStr ''My title'' \<and> in_body F ''description'' = JStr ''0123456789''
      \<and> in_body F ''tech'' = JUndefined \<and> in_body F ''githubUrl'' = JUndefined
      \<and> in_body F ''demoUrl'' = JUndefined \<and> in_body F ''featured'' = JUndefined
      \<and> in_body F ''order'' = JUndefined"
    using rF by (auto simp: createRules_def rule_eval test_request_def trim_def is_space_def)
  have up: "upload_single (file_part ?png) = Inr (Some ?f)"
    using upload_single_accepted [of ?f] image_png_accepted by simp
  have e: "create_route test_deps ''0123456789abcdef01234568'' 200 ?png test_db
     = (\<lparr>status = 201,
         payload = Doc \<lparr>proj_id = ''0123456789abcdef01234568'', title = ''My title'',
                         description = ''0123456789'', tech = [], githubUrl = [], demoUrl = [],
                         featured = False, order = 0,
                         coverImage = Some ''data:image/png;base64,TWFuZg=='', createdAt = 200\<rparr>\<rparr>,
        \<lparr>docs = [test_project,
                 \<lparr>proj_id = ''0123456789abcdef01234568'', title = ''My title'',
                    description = ''0123456789'', tech = [], githubUrl = [], demoUrl = [],
                    featured = False, order = 0,
                    coverImage = Some ''data:image/png;base64,TWFuZg=='', createdAt = 200\<rparr>],
           calls = [Call_create]\<rparr>)"
    using fields v rF up b64
    by (simp add: create_route_def handleValidation_def db_create_def logged_def test_db_def
        cast_string_def cast_tech_def cast_bool_def cast_int_def with_default_def
        bufferToDataUrl_def Let_def)
  note g1 = upload_checked [of ?txt "\<lparr>mimetype = ''text/plain'', buffer = [0x68, 0x69]\<rparr>" test_deps
      "''0123456789abcdef01234568''" 200 test_db, THEN conjunct1, THEN mp, OF a, THEN conjunct1]
  note g2 = upload_checked [of ?big "\<lparr>mimetype = ''image/png'', buffer = replicate 4194305 0\<rparr>" test_deps
      "''0123456789abcdef01234568''" 200 test_db, THEN conjunct1, THEN mp, OF b, THEN conjunct2]
  note g3 = upload_checked [of ?png ?f test_deps "''0123456789abcdef01234568''" 200 test_db "Own (JStr ''u1'')" F,
      THEN conjunct2, THEN conjunct1, THEN mp, OF c]
  show ?thesis by (intro conjI) (rule g1 g2 e g3)+
qed

section \<open>Properties of validation\<close>

lemma run_rule_other:
  assumes "run_rule D r F = Inr (es, F')" and "(loc, k) \<noteq> rule_key r"
  shows "get_field F' loc k = get_field F loc k"
  using assms
  by (auto simp: run_rule_def set_field_def get_field_def rule_key_def
      split: sum.splits location.splits)

lemma run_rule_own:
  assumes "run_rule D r F = Inr (es, F')"
  shows "rule_value D r (get_field F (rule_location r) (rule_field r))
           = Inr (es, get_field F' (rule_location r) (rule_field r))"
  using assms
  by (auto simp: run_rule_def set_field_def get_field_def split: sum.splits location.splits)

lemma run_rules_other:
  assumes "run_rules D rs F = Inr (errs, F')" and "(loc, k) \<notin> set (map rule_key rs)"
  shows "get_field F' loc k = get_field F loc k"
  using assms
proof (induction rs arbitrary: F errs)
  case Nil
  then show ?case by simp
next
  case (Cons r rs)
  from Cons.prems(1) obtain es F1 es' where
    r1: "run_rule D r F = Inr (es, F1)" and r2: "run_rules D rs F1 = Inr (es', F')"
    by (auto split: sum.splits)
  from Cons.prems(2) have "(loc, k) \<noteq> rule_key r" and "(loc, k) \<notin> set (map rule_key rs)"
    by auto
  with Cons.IH [OF r2] run_rule_other [OF r1] show ?case by simp
qed

lemma rule_errors_cong:
  assumes "get_field F1 (rule_location r) (rule_field r) = get_field F (rule_location r) (rule_field r)"
  shows "rule_errors D r F1 = rule_errors D r F"
  using assms by (simp add: rule_errors_def)

lemma run_rules_collect:
  assumes "distinct (map rule_key rs)" and "run_rules D rs F = Inr (errs, F')"
  shows "\<exists>ess. map (\<lambda>r. rule_errors D r F) rs = map Inr ess \<and> errs = concat ess"
  using assms
proof (induction rs arbitrary: F errs)
  case Nil
  then show ?case by simp
next
  case (Cons r rs)
  from Cons.prems(2) obtain es F1 es' where
    r1: "run_rule D r F = Inr (es, F1)" and r2: "run_rules D rs F1 = Inr (es', F')"
    and e: "errs = es @ es'"
    by (auto split: sum.splits)
  from Cons.prems(1) have d: "distinct (map rule_key rs)" and n: "rule_key r \<notin> set (map rule_key rs)"
    by auto
  from Cons.IH [OF d r2] obtain ess where
    m: "map (\<lambda>r. rule_errors D r F1) rs = map Inr ess" and c: "es' = concat ess"
    by blast
  have "rule_errors D x F1 = rule_errors D x F" if "x \<in> set rs" for x
  proof -
    from that have "rule_key x \<in> set (map rule_key rs)" by simp
    with n have "rule_key x \<noteq> rule_key r" by auto
    then have "(rule_location x, rule_field x) \<noteq> rule_key r"
      by (simp add: rule_key_def)
    then show ?thesis
      using run_rule_other [OF r1] by (intro rule_errors_cong) simp
  qed
  then have "map (\<lambda>r. rule_errors D r F) rs = map Inr ess"
    using m by (metis (no_types, lifting) map_eq_conv)
  moreover have "rule_errors D r F = Inr es"
    using run_rule_own [OF r1] by (simp add: rule_errors_def)
  ultimately have "map (\<lambda>r. rule_errors D r F) (r # rs) = map Inr (es # ess)"
    by simp
  moreover have "errs = concat (es # ess)" using e c by simp
  ultimately show ?case by blast
qed

lemma run_rules_field:
  assumes "distinct (map rule_key rs)" and "run_rules D rs F = Inr (errs, F')" and "r \<in> set rs"
  shows "\<exists>es. rule_value D r (get_field F (rule_location r) (rule_field r))
                 = Inr (es, get_field F' (rule_location r) (rule_field r))
              \<and> set es \<subseteq> set errs"
  using assms
proof (induction rs arbitrary: F errs)
  case Nil
  then show ?case by simp
next
  case (Cons a rs)
  from Cons.prems(2) obtain es F1 es' where
    r1: "run_rule D a F = Inr (es, F1)" and r2: "run_rules D rs F1 = Inr (es', F')"
    and e: "errs = es @ es'"
    by (auto split: sum.splits)
  from Cons.prems(1) have d: "distinct (map rule_key rs)" and n: "rule_key a \<notin> set (map rule_key rs)"
    by auto
  show ?case
  proof (cases "r = a")
    case True
    from n have "(rule_location a, rule_field a) \<notin> set (map rule_key rs)"
      by (simp add: rule_key_def)
    then have "get_field F' (rule_location a) (rule_field a) = get_field F1 (rule_location a) (rule_field a)"
      using run_rules_other [OF r2] by blast
    with run_rule_own [OF r1] True e show ?thesis by auto
  next
    case False
    with Cons.prems(3) have in_rs: "r \<in> set rs" by simp
    then have "rule_key r \<in> set (map rule_key rs)" by simp
    with n have "rule_key r \<noteq> rule_key a" by auto
    then have "(rule_location r, rule_field r) \<noteq> rule_key a"
      by (simp add: rule_key_def)
    then have same: "get_field F1 (rule_location r) (rule_field r) = get_field F (rule_location r) (rule_field r)"
      using run_rule_other [OF r1] by blast
    from Cons.IH [OF d r2 in_rs] obtain es2 where
      "rule_value D r (get_field F1 (rule_location r) (rule_field r))
         = Inr (es2, get_field F' (rule_location r) (rule_field r))" and "set es2 \<subseteq> set es'"
      by blast
    with same e show ?thesis by auto
  qed
qed

lemma distinct_rule_keys:
  "distinct (map rule_key createRules)"
  "distinct (map rule_key updateRules)"
  "distinct (map rule_key idRules)"
  by (simp_all add: createRules_def updateRules_def idRules_def rule_key_def)

lemma error_json_keys:
  "\<exists>kvs. error_json ver e = JObj kvs \<and> js_get kvs ''msg'' = JStr (err_msg e)
     \<and> js_get kvs (case ver of V6 \<Rightarrow> ''param'' | V7 \<Rightarrow> ''path'') = JStr (err_path e)
     \<and> ''field'' \<notin> fst ` set kvs \<and> ''message'' \<notin> fst ` set kvs"
  by (cases ver) (auto simp: error_json_def js_get_def Let_def)

lemma run_rules_throws:
  assumes "distinct (map rule_key rs)" and "run_rules D rs F = Inl e"
  shows "\<exists>r\<in>set rs. rule_errors D r F = Inl e"
  using assms
proof (induction rs arbitrary: F)
  case Nil
  then show ?case by simp
next
  case (Cons r rs)
  show ?case
  proof (cases "run_rule D r F")
    case (Inl e')
    with Cons.prems(2) have "e' = e" by simp
    with Inl have "rule_errors D r F = Inl e"
      by (auto simp: run_rule_def rule_errors_def split: sum.splits prod.splits)
    then show ?thesis by simp
  next
    case (Inr p)
    obtain es F1 where p: "p = (es, F1)" by (cases p)
    with Inr have r1: "run_rule D r F = Inr (es, F1)" by simp
    with Cons.prems(2) have r2: "run_rules D rs F1 = Inl e"
      by (auto split: sum.splits prod.splits)
    from Cons.prems(1) have d: "distinct (map rule_key rs)" and n: "rule_key r \<notin> set (map rule_key rs)"
      by auto
    from Cons.IH [OF d r2] obtain x where x: "x \<in> set rs" and t: "rule_errors D x F1 = Inl e"
      by blast
    from x have "rule_key x \<in> set (map rule_key rs)" by simp
    with n have "rule_key x \<noteq> rule_key r" by auto
    then have "(rule_location x, rule_field x) \<noteq> rule_key r"
      by (simp add: rule_key_def)
    then have "rule_errors D x F1 = rule_errors D x F"
      using run_rule_other [OF r1] by (intro rule_errors_cong) simp
    with x t show ?thesis by auto
  qed
qed

lemma rule_throws_tech:
  assumes "rs = createRules \<or> rs = updateRules \<or> rs = idRules" and "r \<in> set rs"
    and "rule_errors D r F = Inl e"
  shows "rs \<noteq> idRules \<and> normalizeTech (get_field F Body ''tech'') = Inl e"
proof -
  from assms have n: "normalizeTech (get_field F Body ''tech'') = Inl e"
    by (auto simp: createRules_def updateRules_def idRules_def rule_errors_def rule_value_def
        sanitize_tech_def split: if_splits sum.splits)
  from assms(2,3) have "rs \<noteq> idRules"
    by (auto simp: idRules_def rule_errors_def rule_value_def split: if_splits)
  with n show ?thesis by simp
qed

lemma run_chain_append:
  "run_chain D (a @ b) v =
     (case run_chain D a v of
        Inl e \<Rightarrow> Inl e
      | Inr (bad, v1) \<Rightarrow>
          (case run_chain D b v1 of
             Inl e \<Rightarrow> Inl e
           | Inr (bad', v2) \<Rightarrow> Inr (bad @ bad', v2)))"
  by (induction a arbitrary: v) (auto split: sum.splits)

text \<open>
  Claim C7, amended. The rules of a route run one after the other without stopping at a
  failure, and so do the steps of a rule's chain: the errors of a chain are those of any
  first part of it followed by those of the rest. Either the rules all return; then the
  errors of the request are the errors that each rule alone reports on it, in the order
  of the rules, and when there are any, the route answers once, with status 400 and the
  body \<open>{message: "Validation error", errors: [...]}\<close>, and the store as it was; each
  element of \<open>errors\<close> is the validation library's error object: it carries the message
  under \<open>msg\<close> and the field name under \<open>path\<close> (\<open>param\<close> up to version 6 of the
  library). Or the normalizer throws on the \<open>tech\<close> field of a create or update request;
  then no list is sent, whatever the other rules reported: the error handler answers 500,
  and the store is as it was.
\<close>

theorem validation_collects:
  assumes "rs = createRules \<or> rs = updateRules \<or> rs = idRules"
  shows "((\<exists>errs F'. run_rules D rs (request_fields req) = Inr (errs, F')
      \<and> (\<exists>ess. map (\<lambda>r. rule_errors D r (request_fields req)) rs = map Inr ess \<and> errs = concat ess)
      \<and> (errs \<noteq> [] \<longrightarrow>
         (\<exists>resp. handleValidation D errs = Some resp
            \<and> status resp = 400
            \<and> payload resp = Json (JObj [(''message'', JStr ''Validation error''),
                 (''errors'', JArr (map (error_json (validator_version D)) errs))])
            \<and> (rs = idRules \<longrightarrow> get_route D req d = (resp, d))
            \<and> (rs = idRules \<and> verifyToken D (authorization req) = Inr u \<longrightarrow>
                  delete_route D req d = (resp, d))
            \<and> (rs = createRules \<and> verifyToken D (authorization req) = Inr u
                  \<and> upload_single (file_part req) = Inr upl \<longrightarrow>
                  create_route D new_id now req d = (resp, d))
            \<and> (rs = updateRules \<and> verifyToken D (authorization req) = Inr u
                  \<and> upload_single (file_part req) = Inr upl \<longrightarrow>
                  update_route D req d = (resp, d))))
      \<and> (\<forall>e\<in>set errs. \<exists>kvs. error_json (validator_version D) e = JObj kvs
            \<and> js_get kvs ''msg'' = JStr (err_msg e)
            \<and> js_get kvs (case validator_version D of V6 \<Rightarrow> ''param'' | V7 \<Rightarrow> ''path'')
                = JStr (err_path e)))
    \<or> (rs \<noteq> idRules
        \<and> normalizeTech (body req ''tech'') = Inl TypeError
        \<and> run_rules D rs (request_fields req) = Inl TypeError
        \<and> (rs = createRules \<and> verifyToken D (authorization req) = Inr u
              \<and> upload_single (file_part req) = Inr upl \<longrightarrow>
              create_route D new_id now req d
                = (\<lparr>status = 500, payload = ErrorMessage (JsError TypeError)\<rparr>, d))
        \<and> (rs = updateRules \<and> verifyToken D (authorization req) = Inr u
              \<and> upload_single (file_part req) = Inr upl \<longrightarrow>
              update_route D req d
                = (\<lparr>status = 500, payload = ErrorMessage (JsError TypeError)\<rparr>, d))))
    \<and> (\<forall>r\<in>set rs. \<forall>a b v. rule_steps r = a @ b \<longrightarrow>
          run_chain D (rule_steps r) v =
            (case run_chain D a v of
               Inl e \<Rightarrow> Inl e
             | Inr (bad, v1) \<Rightarrow>
                 (case run_chain D b v1 of
                    Inl e \<Rightarrow> Inl e
                  | Inr (bad', v2) \<Rightarrow> Inr (bad @ bad', v2))))"
proof -
  from assms have dk: "distinct (map rule_key rs)"
    using distinct_rule_keys by auto
  have chains: "\<forall>r\<in>set rs. \<forall>a b v. rule_steps r = a @ b \<longrightarrow>
          run_chain D (rule_steps r) v =
            (case run_chain D a v of
               Inl e \<Rightarrow> Inl e
             | Inr (bad, v1) \<Rightarrow>
                 (case run_chain D b v1 of
                    Inl e \<Rightarrow> Inl e
                  | Inr (bad', v2) \<Rightarrow> Inr (bad @ bad', v2)))"
    by (simp add: run_chain_append)
  show ?thesis
  proof (cases "run_rules D rs (request_fields req)")
    case (Inr p)
    obtain errs F' where p: "p = (errs, F')" by (cases p)
    with Inr have rr: "run_rules D rs (request_fields req) = Inr (errs, F')" by simp
    have a: "\<exists>ess. map (\<lambda>r. rule_errors D r (request_fields req)) rs = map Inr ess \<and> errs = concat ess"
      using run_rules_collect [OF dk rr] .
    let ?resp = "\<lparr>status = 400,
        payload = Json (JObj [(''message'', JStr ''Validation error''),
                   (''errors'', JArr (map (error_json (validator_version D)) errs))])\<rparr>"
    have b: "\<exists>resp. handleValidation D errs = Some resp
              \<and> status resp = 400
              \<and> payload resp = Json (JObj [(''message'', JStr ''Validation error''),
                   (''errors'', JArr (map (error_json (validator_version D)) errs))])
              \<and> (rs = idRules \<longrightarrow> get_route D req d = (resp, d))
              \<and> (rs = idRules \<and> verifyToken D (authorization req) = Inr u \<longrightarrow>
                    delete_route D req d = (resp, d))
              \<and> (rs = createRules \<and> verifyToken D (authorization req) = Inr u
                    \<and> upload_single (file_part req) = Inr upl \<longrightarrow>
                    create_route D new_id now req d = (resp, d))
              \<and> (rs = updateRules \<and> verifyToken D (authorization req) = Inr u
                    \<and> upload_single (file_part req) = Inr upl \<longrightarrow>
                    update_route D req d = (resp, d))"
      if ne: "errs \<noteq> []"
    proof -
      have h: "handleValidation D errs = Some ?resp"
        using ne by (simp add: handleValidation_def)
      have g: "rs = idRules \<longrightarrow> get_route D req d = (?resp, d)"
        using rr h by (auto simp: get_route_def)
      have dl: "rs = idRules \<and> verifyToken D (authorization req) = Inr u \<longrightarrow>
                    delete_route D req d = (?resp, d)"
        using rr h by (auto simp: delete_route_def)
      have cr: "rs = createRules \<and> verifyToken D (authorization req) = Inr u
                    \<and> upload_single (file_part req) = Inr upl \<longrightarrow>
                    create_route D new_id now req d = (?resp, d)"
        using rr h by (auto simp: create_route_def)
      have up: "rs = updateRules \<and> verifyToken D (authorization req) = Inr u
                    \<and> upload_single (file_part req) = Inr upl \<longrightarrow>
                    update_route D req d = (?resp, d)"
        using rr h by (auto simp: update_route_def)
      from h g dl cr up show ?thesis by simp
    qed
    have c: "\<forall>e\<in>set errs. \<exists>kvs. error_json (validator_version D) e = JObj kvs
            \<and> js_get kvs ''msg'' = JStr (err_msg e)
            \<and> js_get kvs (case validator_version D of V6 \<Rightarrow> ''param'' | V7 \<Rightarrow> ''path'')
                = JStr (err_path e)"
      using error_json_keys by blast
    from rr a b c chains show ?thesis by blast
  next
    case (Inl e)
    have e: "e = TypeError" by (cases e) simp
    with Inl have rr: "run_rules D rs (request_fields req) = Inl TypeError" by simp
    from run_rules_throws [OF dk rr] obtain r where
      r: "r \<in> set rs" and t: "rule_errors D r (request_fields req) = Inl TypeError"
      by blast
    from rule_throws_tech [OF assms r t] have ni: "rs \<noteq> idRules"
      and n: "normalizeTech (body req ''tech'') = Inl TypeError"
      by (simp_all add: get_field_def request_fields_def)
    have cr: "rs = createRules \<and> verifyToken D (authorization req) = Inr u
              \<and> upload_single (file_part req) = Inr upl \<longrightarrow>
              create_route D new_id now req d
                = (\<lparr>status = 500, payload = ErrorMessage (JsError TypeError)\<rparr>, d)"
      using rr by (auto simp: create_route_def error_handler_def)
    have up: "rs = updateRules \<and> verifyToken D (authorization req) = Inr u
              \<and> upload_single (file_part req) = Inr upl \<longrightarrow>
              update_route D req d
                = (\<lparr>status = 500, payload = ErrorMessage (JsError TypeError)\<rparr>, d)"
      using rr by (auto simp: update_route_def error_handler_def)
    from ni n rr cr up chains show ?thesis by blast
  qed
qed

text \<open>
  The elements of \<open>errors\<close> have no key \<open>field\<close> and no key \<open>message\<close>, under either
  version of the library's error format. And a request that breaks a rule can get no list
  at all: with a title that is too short and a \<open>tech\<close> element whose conversion throws,
  the answer is 500.
\<close>

theorem validation_error_shape:
  "get_route test_deps (test_request\<lparr>id_param := ''xyz''\<rparr>) test_db
     = (\<lparr>status = 400,
         payload = Json (JObj [(''message'', JStr ''Validation error''),
           (''errors'', JArr [JObj [(''type'', JStr ''field''), (''value'', JStr ''xyz''),
              (''msg'', JStr ''Invalid value''), (''path'', JStr ''id''),
              (''location'', JStr ''params'')]])])\<rparr>,
        test_db)
   \<and> get_route (test_deps\<lparr>validator_version := V6\<rparr>) (test_request\<lparr>id_param := ''xyz''\<rparr>) test_db
     = (\<lparr>status = 400,
         payload = Json (JObj [(''message'', JStr ''Validation error''),
           (''errors'', JArr [JObj [(''value'', JStr ''xyz''),
              (''msg'', JStr ''Invalid value''), (''param'', JStr ''id''),
              (''location'', JStr ''params'')]])])\<rparr>,
        test_db)
   \<and> rule_errors test_deps (hd createRules)
       (request_fields
          (test_request\<lparr>authorization := Some ''Bearer good'',
                         body := (\<lambda>k. JUndefined)(''title'' := JStr ''x'',
                                                     ''description'' := JStr ''0123456789'',
                                                     ''tech'' := JArr [JObj [(''toString'', JNum 1)]])\<rparr>))
     = Inr [\<lparr>err_location = Body, err_path = ''title'', err_value = JStr ''x'',
              err_msg = ''Invalid value''\<rparr>]
   \<and> create_route test_deps ''0123456789abcdef01234568'' 200
       (test_request\<lparr>authorization := Some ''Bearer good'',
                      body := (\<lambda>k. JUndefined)(''title'' := JStr ''x'',
                                                  ''description'' := JStr ''0123456789'',
                                                  ''tech'' := JArr [JObj [(''toString'', JNum 1)]])\<rparr>)
       test_db
     = (\<lparr>status = 500, payload = ErrorMessage (JsError TypeError)\<rparr>, test_db)"
proof -
  let ?bad = "test_request\<lparr>authorization := Some ''Bearer good'',
                      body := (\<lambda>k. JUndefined)(''title'' := JStr ''x'',
                                                  ''description'' := JStr ''0123456789'',
                                                  ''tech'' := JArr [JObj [(''toString'', JNum 1)]])\<rparr>"
  have a: "get_route test_deps (test_request\<lparr>id_param := ''xyz''\<rparr>) test_db
     = (\<lparr>status = 400,
         payload = Json (JObj [(''message'', JStr ''Validation error''),
           (''errors'', JArr [JObj [(''type'', JStr ''field''), (''value'', JStr ''xyz''),
              (''msg'', JStr ''Invalid value''), (''path'', JStr ''id''),
              (''location'', JStr ''params'')]])])\<rparr>,
        test_db)
   \<and> get_route (test_deps\<lparr>validator_version := V6\<rparr>) (test_request\<lparr>id_param := ''xyz''\<rparr>) test_db
     = (\<lparr>status = 400,
         payload = Json (JObj [(''message'', JStr ''Validation error''),
           (''errors'', JArr [JObj [(''value'', JStr ''xyz''),
              (''msg'', JStr ''Invalid value''), (''param'', JStr ''id''),
              (''location'', JStr ''params'')]])])\<rparr>,
        test_db)"
    by (simp add: get_route_def idRules_def rule_eval handleValidation_def error_json_def
        test_deps_def validator_isMongoId_def test_request_def location_name_def)
  have t: "rule_errors test_deps (hd createRules) (request_fields ?bad)
     = Inr [\<lparr>err_location = Body, err_path = ''title'', err_value = JStr ''x'',
              err_msg = ''Invalid value''\<rparr>]"
    by (simp add: createRules_def rule_errors_def rule_eval test_request_def trim_def is_space_def)
  have vb: "verifyToken test_deps (authorization ?bad) = Inr (Own (JStr ''u1''))"
    by (simp add: verifyToken_def bearer_token_def starts_with_def test_deps_def secret_def
        decoded_prop_def js_get_def prop_or_def truthy_prop_def)
  have rb: "run_rules test_deps createRules (request_fields ?bad) = Inl TypeError"
    by (simp add: createRules_def rule_eval sanitize_tech_def test_request_def test_deps_def
        trim_def is_space_def)
  have b: "create_route test_deps ''0123456789abcdef01234568'' 200 ?bad test_db
     = (\<lparr>status = 500, payload = ErrorMessage (JsError TypeError)\<rparr>, test_db)"
    using vb rb
    by (simp add: create_route_def upload_single_def test_request_def error_handler_def)
  from a t b show ?thesis by (intro conjI) simp_all
qed

theorem validation_collects_witness:
  "(\<exists>resp. create_route test_deps ''0123456789abcdef01234568'' 200
       (test_request\<lparr>authorization := Some ''Bearer good'',
                      body := (\<lambda>k. JUndefined)(''title'' := JNum 5,
                                                  ''description'' := JStr ''short'',
                                                  ''githubUrl'' := JStr ''nope'')\<rparr>)
       test_db = (resp, test_db)
      \<and> status resp = 400
      \<and> payload resp = Json (JObj [(''message'', JStr ''Validation error''),
           (''errors'', JArr
             [JObj [(''type'', JStr ''field''), (''value'', JNum 5),
                    (''msg'', JStr ''Invalid value''), (''path'', JStr ''title''),
                    (''location'', JStr ''body'')],
              JObj [(''type'', JStr ''field''), (''value'', JStr ''5''),
                    (''msg'', JStr ''Invalid value''), (''path'', JStr ''title''),
                    (''location'', JStr ''body'')],
              JObj [(''type'', JStr ''field''), (''value'', JStr ''short''),
                    (''msg'', JStr ''Invalid value''), (''path'', JStr ''description''),
                    (''location'', JStr ''body'')],
              JObj [(''type'', JStr ''field''), (''value'', JStr ''nope''),
                    (''msg'', JStr ''Invalid value''), (''path'', JStr ''githubUrl''),
                    (''location'', JStr ''body'')]])]))"
proof -
  let ?req = "test_request\<lparr>authorization := Some ''Bearer good'',
                      body := (\<lambda>k. JUndefined)(''title'' := JNum 5,
                                                  ''description'' := JStr ''short'',
                                                  ''githubUrl'' := JStr ''nope'')\<rparr>"
  let ?errs = "[\<lparr>err_location = Body, err_path = ''title'', err_value = JNum 5,
                  err_msg = ''Invalid value''\<rparr>,
                \<lparr>err_location = Body, err_path = ''title'', err_value = JStr ''5'',
                  err_msg = ''Invalid value''\<rparr>,
                \<lparr>err_location = Body, err_path = ''description'', err_value = JStr ''short'',
                  err_msg = ''Invalid value''\<rparr>,
                \<lparr>err_location = Body, err_path = ''githubUrl'', err_value = JStr ''nope'',
                  err_msg = ''Invalid value''\<rparr>]"
  have "\<exists>F. run_rules test_deps createRules (request_fields ?req) = Inr (?errs, F)"
    by (simp add: createRules_def rule_eval test_request_def test_deps_def trim_def is_space_def
        starts_with_def dec_int_def digit_char_def)
  then obtain F where r: "run_rules test_deps createRules (request_fields ?req) = Inr (?errs, F)"
    by blast
  have v: "verifyToken test_deps (authorization ?req) = Inr (Own (JStr ''u1''))"
    by (simp add: verifyToken_def bearer_token_def starts_with_def test_deps_def secret_def
        decoded_prop_def js_get_def prop_or_def truthy_prop_def)
  have u: "upload_single (file_part ?req) = Inr None"
    by (simp add: upload_single_def test_request_def)
  have ne: "?errs \<noteq> []" by simp
  have nt: "normalizeTech (body ?req ''tech'') \<noteq> Inl TypeError"
    by (simp add: test_request_def)
  note t = validation_collects [where rs = createRules and D = test_deps and req = ?req
      and d = test_db and u = "Own (JStr ''u1'')" and upl = None
      and new_id = "''0123456789abcdef01234568''" and now = 200, OF disjI1, OF refl,
      THEN conjunct1]
  from t nt obtain errs F' where
    r': "run_rules test_deps createRules (request_fields ?req) = Inr (errs, F')"
    and i: "errs \<noteq> [] \<longrightarrow>
         (\<exists>resp. handleValidation test_deps errs = Some resp
            \<and> status resp = 400
            \<and> payload resp = Json (JObj [(''message'', JStr ''Validation error''),
                 (''errors'', JArr (map (error_json (validator_version test_deps)) errs))])
            \<and> (createRules = idRules \<longrightarrow> get_route test_deps ?req test_db = (resp, test_db))
            \<and> (createRules = idRules \<and> verifyToken test_deps (authorization ?req) = Inr (Own (JStr ''u1'')) \<longrightarrow>
                  delete_route test_deps ?req test_db = (resp, test_db))
            \<and> (createRules = createRules \<and> verifyToken test_deps (authorization ?req) = Inr (Own (JStr ''u1''))
                  \<and> upload_single (file_part ?req) = Inr None \<longrightarrow>
                  create_route test_deps ''0123456789abcdef01234568'' 200 ?req test_db = (resp, test_db))
            \<and> (createRules = updateRules \<and> verifyToken test_deps (authorization ?req) = Inr (Own (JStr ''u1''))
                  \<and> upload_single (file_part ?req) = Inr None \<longrightarrow>
                  update_route test_deps ?req test_db = (resp, test_db)))"
    by blast
  from r r' have "errs = ?errs" by simp
  with i ne v u have "\<exists>resp. handleValidation test_deps ?errs = Some resp
      \<and> status resp = 400
      \<and> payload resp = Json (JObj [(''message'', JStr ''Validation error''),
           (''errors'', JArr (map (error_json (validator_version test_deps)) ?errs))])
      \<and> create_route test_deps ''0123456789abcdef01234568'' 200 ?req test_db = (resp, test_db)"
    by auto
  then show ?thesis
    by (auto simp: error_json_def test_deps_def location_name_def)
qed

section \<open>Properties of the update route\<close>

lemma merge_keeps:
  "proj_id (merge_title v p) = proj_id p"
  "description (merge_title v p) = description p"
  "tech (merge_title v p) = tech p"
  "githubUrl (merge_title v p) = githubUrl p"
  "demoUrl (merge_title v p) = demoUrl p"
  "featured (merge_title v p) = featured p"
  "order (merge_title v p) = order p"
  "coverImage (merge_title v p) = coverImage p"
  "createdAt (merge_title v p) = createdAt p"
  "proj_id (merge_description v p) = proj_id p"
  "title (merge_description v p) = title p"
  "tech (merge_description v p) = tech p"
  "githubUrl (merge_description v p) = githubUrl p"
  "demoUrl (merge_description v p) = demoUrl p"
  "featured (merge_description v p) = featured p"
  "order (merge_description v p) = order p"
  "coverImage (merge_description v p) = coverImage p"
  "createdAt (merge_description v p) = createdAt p"
  "proj_id (merge_tech v p) = proj_id p"
  "title (merge_tech v p) = title p"
  "description (merge_tech v p) = description p"
  "githubUrl (merge_tech v p) = githubUrl p"
  "demoUrl (merge_tech v p) = demoUrl p"
  "featured (merge_tech v p) = featured p"
  "order (merge_tech v p) = order p"
  "coverImage (merge_tech v p) = coverImage p"
  "createdAt (merge_tech v p) = createdAt p"
  "proj_id (merge_githubUrl v p) = proj_id p"
  "title (merge_githubUrl v p) = title p"
  "description (merge_githubUrl v p) = description p"
  "tech (merge_githubUrl v p) = tech p"
  "demoUrl (merge_githubUrl v p) = demoUrl p"
  "featured (merge_githubUrl v p) = featured p"
  "order (merge_githubUrl v p) = order p"
  "coverImage (merge_githubUrl v p) = coverImage p"
  "createdAt (merge_githubUrl v p) = createdAt p"
  "proj_id (merge_demoUrl v p) = proj_id p"
  "title (merge_demoUrl v p) = title p"
  "description (merge_demoUrl v p) = description p"
  "tech (merge_demoUrl v p) = tech p"
  "githubUrl (merge_demoUrl v p) = githubUrl p"
  "featured (merge_demoUrl v p) = featured p"
  "order (merge_demoUrl v p) = order p"
  "coverImage (merge_demoUrl v p) = coverImage p"
  "createdAt (merge_demoUrl v p) = createdAt p"
  "proj_id (merge_featured v p) = proj_id p"
  "title (merge_featured v p) = title p"
  "description (merge_featured v p) = description p"
  "tech (merge_featured v p) = tech p"
  "githubUrl (merge_featured v p) = githubUrl p"
  "demoUrl (merge_featured v p) = demoUrl p"
  "order (merge_featured v p) = order p"
  "coverImage (merge_featured v p) = coverImage p"
  "createdAt (merge_featured v p) = createdAt p"
  "proj_id (merge_order v p) = proj_id p"
  "title (merge_order v p) = title p"
  "description (merge_order v p) = description p"
  "tech (merge_order v p) = tech p"
  "githubUrl (merge_order v p) = githubUrl p"
  "demoUrl (merge_order v p) = demoUrl p"
  "featured (merge_order v p) = featured p"
  "coverImage (merge_order v p) = coverImage p"
  "createdAt (merge_order v p) = createdAt p"
  "proj_id (merge_coverImage u p) = proj_id p"
  "title (merge_coverImage u p) = title p"
  "description (merge_coverImage u p) = description p"
  "tech (merge_coverImage u p) = tech p"
  "githubUrl (merge_coverImage u p) = githubUrl p"
  "demoUrl (merge_coverImage u p) = demoUrl p"
  "featured (merge_coverImage u p) = featured p"
  "order (merge_coverImage u p) = order p"
  "createdAt (merge_coverImage u p) = createdAt p"
  by (simp_all add: merge_defs split: jsval.splits option.splits)

lemma apply_update_keeps:
  "proj_id (apply_update p b u) = proj_id p"
  "createdAt (apply_update p b u) = createdAt p"
  by (simp_all add: apply_update_def merge_keeps)

lemma merge_changes:
  "title (merge_title v p) \<noteq> title p \<Longrightarrow> \<exists>s. v = JStr s \<and> title (merge_title v p) = trim s"
  "description (merge_description v p) \<noteq> description p \<Longrightarrow>
     \<exists>s. v = JStr s \<and> description (merge_description v p) = trim s"
  "tech (merge_tech v p) \<noteq> tech p \<Longrightarrow> \<exists>xs. v = JArr xs \<and> tech (merge_tech v p) = cast_tech v"
  "githubUrl (merge_githubUrl v p) \<noteq> githubUrl p \<Longrightarrow>
     \<exists>s. v = JStr s \<and> githubUrl (merge_githubUrl v p) = trim s"
  "demoUrl (merge_demoUrl v p) \<noteq> demoUrl p \<Longrightarrow>
     \<exists>s. v = JStr s \<and> demoUrl (merge_demoUrl v p) = trim s"
  "featured (merge_featured v p) \<noteq> featured p \<Longrightarrow> \<exists>x. v = JBool x"
  "order (merge_order v p) \<noteq> order p \<Longrightarrow> \<exists>n. v = JNum n"
  "coverImage (merge_coverImage u p) \<noteq> coverImage p \<Longrightarrow>
     \<exists>f. u = Some f \<and> coverImage (merge_coverImage u p) = bufferToDataUrl (Some f)"
  by (simp_all add: merge_defs split: jsval.splits option.splits)

lemma apply_update_title:
  assumes "title (apply_update p b u) \<noteq> title p"
  shows "\<exists>s. b ''title'' = JStr s \<and> title (apply_update p b u) = trim s"
proof -
  let ?q = "p"
  have 1: "title (apply_update p b u) = title (merge_title (b ''title'') ?q)"
    by (simp add: apply_update_def merge_keeps)
  have 2: "title ?q = title p"
    by (simp add: merge_keeps)
  from assms 1 2 have "title (merge_title (b ''title'') ?q) \<noteq> title ?q" by simp
  from merge_changes(1) [OF this] 1 show ?thesis by simp
qed

lemma apply_update_description:
  assumes "description (apply_update p b u) \<noteq> description p"
  shows "\<exists>s. b ''description'' = JStr s \<and> description (apply_update p b u) = trim s"
proof -
  let ?q = "merge_title (b ''title'') p"
  have 1: "description (apply_update p b u) = description (merge_description (b ''description'') ?q)"
    by (simp add: apply_update_def merge_keeps)
  have 2: "description ?q = description p"
    by (simp add: merge_keeps)
  from assms 1 2 have "description (merge_description (b ''description'') ?q) \<noteq> description ?q" by simp
  from merge_changes(2) [OF this] 1 show ?thesis by simp
qed

lemma apply_update_tech:
  assumes "tech (apply_update p b u) \<noteq> tech p"
  shows "\<exists>xs. b ''tech'' = JArr xs \<and> tech (apply_update p b u) = cast_tech (b ''tech'')"
proof -
  let ?q = "merge_description (b ''description'') (merge_title (b ''title'') p)"
  have 1: "tech (apply_update p b u) = tech (merge_tech (b ''tech'') ?q)"
    by (simp add: apply_update_def merge_keeps)
  have 2: "tech ?q = tech p"
    by (simp add: merge_keeps)
  from assms 1 2 have "tech (merge_tech (b ''tech'') ?q) \<noteq> tech ?q" by simp
  from merge_changes(3) [OF this] 1 show ?thesis by simp
qed

lemma apply_update_githubUrl:
  assumes "githubUrl (apply_update p b u) \<noteq> githubUrl p"
  shows "\<exists>s. b ''githubUrl'' = JStr s \<and> githubUrl (apply_update p b u) = trim s"
proof -
  let ?q = "merge_tech (b ''tech'') (merge_description (b ''description'') (merge_title (b ''title'') p))"
  have 1: "githubUrl (apply_update p b u) = githubUrl (merge_githubUrl (b ''githubUrl'') ?q)"
    by (simp add: apply_update_def merge_keeps)
  have 2: "githubUrl ?q = githubUrl p"
    by (simp add: merge_keeps)
  from assms 1 2 have "githubUrl (merge_githubUrl (b ''githubUrl'') ?q) \<noteq> githubUrl ?q" by simp
  from merge_changes(4) [OF this] 1 show ?thesis by simp
qed

lemma apply_update_demoUrl:
  assumes "demoUrl (apply_update p b u) \<noteq> demoUrl p"
  shows "\<exists>s. b ''demoUrl'' = JStr s \<and> demoUrl (apply_update p b u) = trim s"
proof -
  let ?q = "merge_githubUrl (b ''githubUrl'') (merge_tech (b ''tech'') (merge_description (b ''description'') (merge_title (b ''title'') p)))"
  have 1: "demoUrl (apply_update p b u) = demoUrl (merge_demoUrl (b ''demoUrl'') ?q)"
    by (simp add: apply_update_def merge_keeps)
  have 2: "demoUrl ?q = demoUrl p"
    by (simp add: merge_keeps)
  from assms 1 2 have "demoUrl (merge_demoUrl (b ''demoUrl'') ?q) \<noteq> demoUrl ?q" by simp
  from merge_changes(5) [OF this] 1 show ?thesis by simp
qed

lemma apply_update_featured:
  assumes "featured (apply_update p b u) \<noteq> featured p"
  shows "\<exists>x. b ''featured'' = JBool x"
proof -
  let ?q = "merge_demoUrl (b ''demoUrl'') (merge_githubUrl (b ''githubUrl'') (merge_tech (b ''tech'') (merge_description (b ''description'') (merge_title (b ''title'') p))))"
  have 1: "featured (apply_update p b u) = featured (merge_featured (b ''featured'') ?q)"
    by (simp add: apply_update_def merge_keeps)
  have 2: "featured ?q = featured p"
    by (simp add: merge_keeps)
  from assms 1 2 have "featured (merge_featured (b ''featured'') ?q) \<noteq> featured ?q" by simp
  from merge_changes(6) [OF this] 1 show ?thesis by simp
qed

lemma apply_update_order:
  assumes "order (apply_update p b u) \<noteq> order p"
  shows "\<exists>n. b ''order'' = JNum n"
proof -
  let ?q = "merge_featured (b ''featured'') (merge_demoUrl (b ''demoUrl'') (merge_githubUrl (b ''githubUrl'') (merge_tech (b ''tech'') (merge_description (b ''description'') (merge_title (b ''title'') p)))))"
  have 1: "order (apply_update p b u) = order (merge_order (b ''order'') ?q)"
    by (simp add: apply_update_def merge_keeps)
  have 2: "order ?q = order p"
    by (simp add: merge_keeps)
  from assms 1 2 have "order (merge_order (b ''order'') ?q) \<noteq> order ?q" by simp
  from merge_changes(7) [OF this] 1 show ?thesis by simp
qed

lemma apply_update_coverImage:
  assumes "coverImage (apply_update p b u) \<noteq> coverImage p"
  shows "\<exists>f. u = Some f \<and> coverImage (apply_update p b u) = bufferToDataUrl (Some f)"
proof -
  let ?q = "merge_order (b ''order'') (merge_featured (b ''featured'') (merge_demoUrl (b ''demoUrl'') (merge_githubUrl (b ''githubUrl'') (merge_tech (b ''tech'') (merge_description (b ''description'') (merge_title (b ''title'') p))))))"
  have 1: "coverImage (apply_update p b u) = coverImage (merge_coverImage u ?q)"
    by (simp add: apply_update_def merge_keeps)
  have 2: "coverImage ?q = coverImage p"
    by (simp add: merge_keeps)
  from assms 1 2 have "coverImage (merge_coverImage u ?q) \<noteq> coverImage ?q" by simp
  from merge_changes(8) [OF this] 1 show ?thesis by simp
qed

lemma rule_value_text:
  assumes "rule_optional r = Optional" and "rule_steps r = [IsString, Trim, IsLength lo hi]"
    and "rule_value D r v = Inr ([], v')"
  shows "(v = JUndefined \<and> v' = JUndefined) \<or> (\<exists>s. v = JStr s \<and> v' = JStr (trim s))"
  using assms
  by (cases v)
    (auto simp: rule_value_def skipped_def std_sanitize_def std_validate_def ev_toString_def
      values_of_def split: if_splits)

lemma rule_value_url:
  assumes "rule_steps r = [IsURL]" and "rule_value D r v = Inr (es, v')"
  shows "v' = v"
  using assms by (auto simp: rule_value_def split: if_splits)

lemma rule_value_tech:
  assumes "rule_optional r = OptionalFalsy" and "rule_steps r = [CustomSanitizer sanitize_tech]"
    and "rule_value D r v = Inr (es, v')"
  shows "(\<not> truthy v \<and> v' = v) \<or> (truthy v \<and> (\<exists>ss. normalizeTech v = Inr ss \<and> v' = JArr (map JStr ss)))"
  using assms
  by (auto simp: rule_value_def skipped_def sanitize_tech_def split: if_splits sum.splits)

lemma rule_value_optional:
  assumes "rule_optional r = Optional" and "rule_value D r v = Inr (es, v')" and "v = JUndefined"
  shows "v' = JUndefined"
  using assms by (simp add: rule_value_def skipped_def)

lemma upload_single_Inr: "upload_single part = Inr file \<Longrightarrow> file = part"
  by (auto simp: upload_single_def fileFilter_def split: option.splits if_splits)

lemma find_proj_id: "find (\<lambda>p. proj_id p = i) ps = Some p0 \<Longrightarrow> p0 \<in> set ps \<and> proj_id p0 = i"
  by (auto simp: find_Some_iff)

lemma distinct_ids_same:
  assumes "distinct (map proj_id ps)" and "a \<in> set ps" and "b \<in> set ps" and "proj_id a = proj_id b"
  shows "a = b"
  using assms by (meson distinct_map inj_onD)

lemma update_route_saved:
  assumes "verifyToken D (authorization req) = Inr u"
    and "upload_single (file_part req) = Inr file"
    and "run_rules D updateRules (request_fields req) = Inr ([], F)"
    and "find (\<lambda>p. proj_id p = id_param req) (docs d) = Some p0"
  shows "docs (snd (update_route D req d)) =
     map (\<lambda>x. if proj_id x = proj_id p0 then apply_update p0 (in_body F) file else x) (docs d)"
  using assms
  by (simp add: update_route_def handleValidation_def db_findById_def lookup_def db_save_def
      logged_def apply_update_keeps)

lemma update_route_unsaved:
  assumes "update_route D req d = (res, d')"
    and "\<not> (\<exists>u file F p0. verifyToken D (authorization req) = Inr u
        \<and> upload_single (file_part req) = Inr file
        \<and> run_rules D updateRules (request_fields req) = Inr ([], F)
        \<and> find (\<lambda>p. proj_id p = id_param req) (docs d) = Some p0)"
  shows "docs d' = docs d"
proof (cases "verifyToken D (authorization req)")
  case (Inl denied)
  with assms(1) show ?thesis by (simp add: update_route_def)
next
  case (Inr u)
  show ?thesis
  proof (cases "upload_single (file_part req)")
    case (Inl msg)
    with Inr assms(1) show ?thesis by (simp add: update_route_def)
  next
    case up: (Inr upl)
    show ?thesis
    proof (cases "run_rules D updateRules (request_fields req)")
      case (Inl e)
      with Inr up assms(1) show ?thesis by (simp add: update_route_def)
    next
      case rr: (Inr pair)
      obtain errs F where pair: "pair = (errs, F)" by (cases pair)
      show ?thesis
      proof (cases "errs = []")
        case False
        with Inr up rr pair assms(1) show ?thesis
          by (simp add: update_route_def handleValidation_def)
      next
        case True
        have "find (\<lambda>p. proj_id p = id_param req) (docs d) = None"
        proof (rule ccontr)
          assume "find (\<lambda>p. proj_id p = id_param req) (docs d) \<noteq> None"
          then obtain p0 where "find (\<lambda>p. proj_id p = id_param req) (docs d) = Some p0"
            by blast
          with Inr up rr pair True assms(2) show False by blast
        qed
        with True Inr up rr pair assms(1) show ?thesis
          by (auto simp: update_route_def handleValidation_def db_findById_def lookup_def
              logged_def message_response_def split: if_splits)
      qed
    qed
  qed
qed

lemma update_route_doc:
  assumes "update_route D req d = (res, d')" and "distinct (map proj_id (docs d))"
    and "i < length (docs d)"
  shows "length (docs d') = length (docs d)
         \<and> (docs d' ! i = docs d ! i
            \<or> (\<exists>F. run_rules D updateRules (request_fields req) = Inr ([], F)
                   \<and> docs d' ! i = apply_update (docs d ! i) (in_body F) (file_part req)))"
proof (cases "\<exists>u file F p0. verifyToken D (authorization req) = Inr u
    \<and> upload_single (file_part req) = Inr file
    \<and> run_rules D updateRules (request_fields req) = Inr ([], F)
    \<and> find (\<lambda>p. proj_id p = id_param req) (docs d) = Some p0")
  case True
  then obtain u upl F p0 where v: "verifyToken D (authorization req) = Inr u"
    and up: "upload_single (file_part req) = Inr upl"
    and r: "run_rules D updateRules (request_fields req) = Inr ([], F)"
    and f: "find (\<lambda>p. proj_id p = id_param req) (docs d) = Some p0"
    by blast
  from up have upl: "upl = file_part req" by (rule upload_single_Inr)
  let ?p = "apply_update p0 (in_body F) (file_part req)"
  have "docs d' = docs (snd (update_route D req d))"
    by (simp only: assms(1) snd_conv)
  also have "\<dots> = map (\<lambda>x. if proj_id x = proj_id p0 then apply_update p0 (in_body F) upl else x) (docs d)"
    by (rule update_route_saved [OF v up r f])
  finally have dd: "docs d' = map (\<lambda>x. if proj_id x = proj_id p0 then ?p else x) (docs d)"
    by (simp only: upl)
  have p0: "p0 \<in> set (docs d)" using find_proj_id [OF f] by simp
  have len: "length (docs d') = length (docs d)" using dd by simp
  have "docs d' ! i = docs d ! i \<or> docs d' ! i = apply_update (docs d ! i) (in_body F) (file_part req)"
  proof (cases "proj_id (docs d ! i) = proj_id p0")
    case True
    with assms(2,3) p0 have "docs d ! i = p0"
      using distinct_ids_same [of "docs d" "docs d ! i" p0] by simp
    with dd assms(3) show ?thesis by simp
  next
    case False
    with dd assms(3) show ?thesis by simp
  qed
  with len r show ?thesis by blast
next
  case False
  with assms(1) have "docs d' = docs d" by (rule update_route_unsaved)
  then show ?thesis by simp
qed

lemma cast_tech_strings: "cast_tech (JArr (map JStr ss)) = ss"
  by (simp add: cast_tech_def cast_string_def comp_def)

lemma update_rule_value:
  assumes "run_rules D updateRules (request_fields req) = Inr ([], F)"
    and "r \<in> set updateRules" and "rule_location r = Body"
  shows "rule_value D r (body req (rule_field r)) = Inr ([], in_body F (rule_field r))"
proof -
  have "distinct (map rule_key updateRules)"
    by (simp add: updateRules_def rule_key_def)
  from run_rules_field [OF this assms(1,2)] obtain es where
    "rule_value D r (get_field (request_fields req) (rule_location r) (rule_field r))
       = Inr (es, get_field F (rule_location r) (rule_field r))" and "set es \<subseteq> set []"
    by blast
  with assms(3) show ?thesis
    by (simp add: get_field_def request_fields_def)
qed

lemma update_rules_pass:
  assumes "run_rules D updateRules (request_fields req) = Inr ([], F)"
  shows "(body req ''title'' = JUndefined \<and> in_body F ''title'' = JUndefined)
         \<or> (\<exists>s. body req ''title'' = JStr s \<and> in_body F ''title'' = JStr (trim s))"
    and "(body req ''description'' = JUndefined \<and> in_body F ''description'' = JUndefined)
         \<or> (\<exists>s. body req ''description'' = JStr s \<and> in_body F ''description'' = JStr (trim s))"
    and "(\<not> truthy (body req ''tech'') \<and> in_body F ''tech'' = body req ''tech'')
         \<or> (truthy (body req ''tech'')
             \<and> (\<exists>ss. normalizeTech (body req ''tech'') = Inr ss \<and> in_body F ''tech'' = JArr (map JStr ss)))"
    and "in_body F ''githubUrl'' = body req ''githubUrl''"
    and "in_body F ''demoUrl'' = body req ''demoUrl''"
    and "body req ''featured'' = JUndefined \<longrightarrow> in_body F ''featured'' = JUndefined"
    and "body req ''order'' = JUndefined \<longrightarrow> in_body F ''order'' = JUndefined"
proof -
  let ?t = "\<lparr>rule_location = Body, rule_field = ''title'', rule_optional = Optional,
        rule_steps = [IsString, Trim, IsLength 2 120]\<rparr>"
  let ?d = "\<lparr>rule_location = Body, rule_field = ''description'', rule_optional = Optional,
        rule_steps = [IsString, Trim, IsLength 10 3000]\<rparr>"
  let ?te = "\<lparr>rule_location = Body, rule_field = ''tech'', rule_optional = OptionalFalsy,
        rule_steps = [CustomSanitizer sanitize_tech]\<rparr>"
  let ?g = "\<lparr>rule_location = Body, rule_field = ''githubUrl'', rule_optional = OptionalFalsy,
        rule_steps = [IsURL]\<rparr>"
  let ?dm = "\<lparr>rule_location = Body, rule_field = ''demoUrl'', rule_optional = OptionalFalsy,
        rule_steps = [IsURL]\<rparr>"
  let ?f = "\<lparr>rule_location = Body, rule_field = ''featured'', rule_optional = Optional,
        rule_steps = [ToBoolean]\<rparr>"
  let ?o = "\<lparr>rule_location = Body, rule_field = ''order'', rule_optional = Optional,
        rule_steps = [ToInt]\<rparr>"
  have m: "?t \<in> set updateRules" "?d \<in> set updateRules" "?te \<in> set updateRules"
    "?g \<in> set updateRules" "?dm \<in> set updateRules" "?f \<in> set updateRules" "?o \<in> set updateRules"
    by (simp_all add: updateRules_def)
  have t: "rule_value D ?t (body req ''title'') = Inr ([], in_body F ''title'')"
    using update_rule_value [OF assms m(1)] by simp
  have d: "rule_value D ?d (body req ''description'') = Inr ([], in_body F ''description'')"
    using update_rule_value [OF assms m(2)] by simp
  have te: "rule_value D ?te (body req ''tech'') = Inr ([], in_body F ''tech'')"
    using update_rule_value [OF assms m(3)] by simp
  have g: "rule_value D ?g (body req ''githubUrl'') = Inr ([], in_body F ''githubUrl'')"
    using update_rule_value [OF assms m(4)] by simp
  have dm: "rule_value D ?dm (body req ''demoUrl'') = Inr ([], in_body F ''demoUrl'')"
    using update_rule_value [OF assms m(5)] by simp
  have f: "rule_value D ?f (body req ''featured'') = Inr ([], in_body F ''featured'')"
    using update_rule_value [OF assms m(6)] by simp
  have o: "rule_value D ?o (body req ''order'') = Inr ([], in_body F ''order'')"
    using update_rule_value [OF assms m(7)] by simp
  show "(body req ''title'' = JUndefined \<and> in_body F ''title'' = JUndefined)
         \<or> (\<exists>s. body req ''title'' = JStr s \<and> in_body F ''title'' = JStr (trim s))"
    using rule_value_text [OF _ _ t] by simp
  show "(body req ''description'' = JUndefined \<and> in_body F ''description'' = JUndefined)
         \<or> (\<exists>s. body req ''description'' = JStr s \<and> in_body F ''description'' = JStr (trim s))"
    using rule_value_text [OF _ _ d] by simp
  show "(\<not> truthy (body req ''tech'') \<and> in_body F ''tech'' = body req ''tech'')
         \<or> (truthy (body req ''tech'')
             \<and> (\<exists>ss. normalizeTech (body req ''tech'') = Inr ss \<and> in_body F ''tech'' = JArr (map JStr ss)))"
    using rule_value_tech [OF _ _ te] by simp
  show "in_body F ''githubUrl'' = body req ''githubUrl''"
    using rule_value_url [OF _ g] by simp
  show "in_body F ''demoUrl'' = body req ''demoUrl''"
    using rule_value_url [OF _ dm] by simp
  show "body req ''featured'' = JUndefined \<longrightarrow> in_body F ''featured'' = JUndefined"
    using rule_value_optional [OF _ f] by simp
  show "body req ''order'' = JUndefined \<longrightarrow> in_body F ''order'' = JUndefined"
    using rule_value_optional [OF _ o] by simp
qed

lemma apply_update_request:
  assumes "run_rules D updateRules (request_fields req) = Inr ([], F)"
    and "b = apply_update a (in_body F) (file_part req)"
  shows "proj_id b = proj_id a \<and> createdAt b = createdAt a"
    and "title b \<noteq> title a \<longrightarrow> (\<exists>s. body req ''title'' = JStr s \<and> title b = trim s)"
    and "description b \<noteq> description a \<longrightarrow>
           (\<exists>s. body req ''description'' = JStr s \<and> description b = trim s)"
    and "tech b \<noteq> tech a \<longrightarrow>
           truthy (body req ''tech'') \<and> normalizeTech (body req ''tech'') = Inr (tech b)"
    and "githubUrl b \<noteq> githubUrl a \<longrightarrow> (\<exists>s. body req ''githubUrl'' = JStr s \<and> githubUrl b = trim s)"
    and "demoUrl b \<noteq> demoUrl a \<longrightarrow> (\<exists>s. body req ''demoUrl'' = JStr s \<and> demoUrl b = trim s)"
    and "featured b \<noteq> featured a \<longrightarrow> body req ''featured'' \<noteq> JUndefined"
    and "order b \<noteq> order a \<longrightarrow> body req ''order'' \<noteq> JUndefined"
    and "coverImage b \<noteq> coverImage a \<longrightarrow>
           (\<exists>f. file_part req = Some f \<and> coverImage b = bufferToDataUrl (Some f))"
proof -
  note pass = update_rules_pass [OF assms(1)]
  show "proj_id b = proj_id a \<and> createdAt b = createdAt a"
    by (simp add: assms(2) apply_update_keeps)
  show "title b \<noteq> title a \<longrightarrow> (\<exists>s. body req ''title'' = JStr s \<and> title b = trim s)"
  proof
    assume "title b \<noteq> title a"
    then obtain s where "in_body F ''title'' = JStr s" and "title b = trim s"
      unfolding assms(2) using apply_update_title by blast
    with pass(1) show "\<exists>s. body req ''title'' = JStr s \<and> title b = trim s"
      by (auto simp: trim_idem)
  qed
  show "description b \<noteq> description a \<longrightarrow>
           (\<exists>s. body req ''description'' = JStr s \<and> description b = trim s)"
  proof
    assume "description b \<noteq> description a"
    then obtain s where "in_body F ''description'' = JStr s" and "description b = trim s"
      unfolding assms(2) using apply_update_description by blast
    with pass(2) show "\<exists>s. body req ''description'' = JStr s \<and> description b = trim s"
      by (auto simp: trim_idem)
  qed
  show "tech b \<noteq> tech a \<longrightarrow>
           truthy (body req ''tech'') \<and> normalizeTech (body req ''tech'') = Inr (tech b)"
  proof
    assume "tech b \<noteq> tech a"
    then obtain xs where "in_body F ''tech'' = JArr xs" and "tech b = cast_tech (in_body F ''tech'')"
      unfolding assms(2) using apply_update_tech by blast
    from pass(3) show "truthy (body req ''tech'') \<and> normalizeTech (body req ''tech'') = Inr (tech b)"
    proof
      assume "\<not> truthy (body req ''tech'') \<and> in_body F ''tech'' = body req ''tech''"
      with \<open>in_body F ''tech'' = JArr xs\<close> have "\<not> truthy (JArr xs)" by simp
      then show ?thesis by simp
    next
      assume "truthy (body req ''tech'')
        \<and> (\<exists>ss. normalizeTech (body req ''tech'') = Inr ss \<and> in_body F ''tech'' = JArr (map JStr ss))"
      with \<open>tech b = cast_tech (in_body F ''tech'')\<close> show ?thesis
        by (auto simp: cast_tech_strings)
    qed
  qed
  show "githubUrl b \<noteq> githubUrl a \<longrightarrow> (\<exists>s. body req ''githubUrl'' = JStr s \<and> githubUrl b = trim s)"
    unfolding assms(2) using apply_update_githubUrl [of a "in_body F" "file_part req"] pass(4)
    by auto
  show "demoUrl b \<noteq> demoUrl a \<longrightarrow> (\<exists>s. body req ''demoUrl'' = JStr s \<and> demoUrl b = trim s)"
    unfolding assms(2) using apply_update_demoUrl [of a "in_body F" "file_part req"] pass(5)
    by auto
  show "featured b \<noteq> featured a \<longrightarrow> body req ''featured'' \<noteq> JUndefined"
    unfolding assms(2) using apply_update_featured [of a "in_body F" "file_part req"] pass(6)
    by auto
  show "order b \<noteq> order a \<longrightarrow> body req ''order'' \<noteq> JUndefined"
    unfolding assms(2) using apply_update_order [of a "in_body F" "file_part req"] pass(7)
    by auto
  show "coverImage b \<noteq> coverImage a \<longrightarrow>
           (\<exists>f. file_part req = Some f \<and> coverImage b = bufferToDataUrl (Some f))"
    unfolding assms(2) using apply_update_coverImage [of a "in_body F" "file_part req"]
    by auto
qed

text \<open>
  Claim C2, amended. An update leaves the number of stored documents, their identifiers
  and creation times as they were, and changes a field of a document only as follows:
  \<open>title\<close>, \<open>description\<close>, \<open>githubUrl\<close> and \<open>demoUrl\<close> only when the request field is a
  string, to that string trimmed; \<open>tech\<close> only when the request field is truthy, to its
  normalization; \<open>featured\<close> and \<open>order\<close> only when the request field is present;
  \<open>coverImage\<close> only when a file is attached, to its data URL. So a request whose body
  holds only a title, with no file, leaves every field but the title unchanged. Stored
  identifiers are assumed distinct.
\<close>

theorem update_merge:
  assumes "update_route D req d = (res, d')" and "distinct (map proj_id (docs d))"
    and "i < length (docs d)"
  shows "length (docs d') = length (docs d)
    \<and> proj_id (docs d' ! i) = proj_id (docs d ! i)
    \<and> createdAt (docs d' ! i) = createdAt (docs d ! i)
    \<and> (title (docs d' ! i) \<noteq> title (docs d ! i) \<longrightarrow>
         (\<exists>s. body req ''title'' = JStr s \<and> title (docs d' ! i) = trim s))
    \<and> (description (docs d' ! i) \<noteq> description (docs d ! i) \<longrightarrow>
         (\<exists>s. body req ''description'' = JStr s \<and> description (docs d' ! i) = trim s))
    \<and> (tech (docs d' ! i) \<noteq> tech (docs d ! i) \<longrightarrow>
         truthy (body req ''tech'') \<and> normalizeTech (body req ''tech'') = Inr (tech (docs d' ! i)))
    \<and> (githubUrl (docs d' ! i) \<noteq> githubUrl (docs d ! i) \<longrightarrow>
         (\<exists>s. body req ''githubUrl'' = JStr s \<and> githubUrl (docs d' ! i) = trim s))
    \<and> (demoUrl (docs d' ! i) \<noteq> demoUrl (docs d ! i) \<longrightarrow>
         (\<exists>s. body req ''demoUrl'' = JStr s \<and> demoUrl (docs d' ! i) = trim s))
    \<and> (featured (docs d' ! i) \<noteq> featured (docs d ! i) \<longrightarrow> body req ''featured'' \<noteq> JUndefined)
    \<and> (order (docs d' ! i) \<noteq> order (docs d ! i) \<longrightarrow> body req ''order'' \<noteq> JUndefined)
    \<and> (coverImage (docs d' ! i) \<noteq> coverImage (docs d ! i) \<longrightarrow>
         (\<exists>f. file_part req = Some f \<and> coverImage (docs d' ! i) = bufferToDataUrl (Some f)))
    \<and> ((\<forall>k. k \<noteq> ''title'' \<longrightarrow> body req k = JUndefined) \<and> file_part req = None \<longrightarrow>
         description (docs d' ! i) = description (docs d ! i)
         \<and> tech (docs d' ! i) = tech (docs d ! i)
         \<and> githubUrl (docs d' ! i) = githubUrl (docs d ! i)
         \<and> demoUrl (docs d' ! i) = demoUrl (docs d ! i)
         \<and> featured (docs d' ! i) = featured (docs d ! i)
         \<and> order (docs d' ! i) = order (docs d ! i)
         \<and> coverImage (docs d' ! i) = coverImage (docs d ! i))"
proof -
  let ?a = "docs d ! i" and ?b = "docs d' ! i"
  from update_route_doc [OF assms] have len: "length (docs d') = length (docs d)"
    and alt: "?b = ?a \<or> (\<exists>F. run_rules D updateRules (request_fields req) = Inr ([], F)
                   \<and> ?b = apply_update ?a (in_body F) (file_part req))"
    by blast+
  have fields: "(proj_id ?b = proj_id ?a \<and> createdAt ?b = createdAt ?a)
    \<and> (title ?b \<noteq> title ?a \<longrightarrow> (\<exists>s. body req ''title'' = JStr s \<and> title ?b = trim s))
    \<and> (description ?b \<noteq> description ?a \<longrightarrow>
         (\<exists>s. body req ''description'' = JStr s \<and> description ?b = trim s))
    \<and> (tech ?b \<noteq> tech ?a \<longrightarrow>
         truthy (body req ''tech'') \<and> normalizeTech (body req ''tech'') = Inr (tech ?b))
    \<and> (githubUrl ?b \<noteq> githubUrl ?a \<longrightarrow> (\<exists>s. body req ''githubUrl'' = JStr s \<and> githubUrl ?b = trim s))
    \<and> (demoUrl ?b \<noteq> demoUrl ?a \<longrightarrow> (\<exists>s. body req ''demoUrl'' = JStr s \<and> demoUrl ?b = trim s))
    \<and> (featured ?b \<noteq> featured ?a \<longrightarrow> body req ''featured'' \<noteq> JUndefined)
    \<and> (order ?b \<noteq> order ?a \<longrightarrow> body req ''order'' \<noteq> JUndefined)
    \<and> (coverImage ?b \<noteq> coverImage ?a \<longrightarrow>
         (\<exists>f. file_part req = Some f \<and> coverImage ?b = bufferToDataUrl (Some f)))"
  proof (cases "?b = ?a")
    case True
    then show ?thesis by simp
  next
    case False
    with alt obtain F where r: "run_rules D updateRules (request_fields req) = Inr ([], F)"
      and b: "?b = apply_update ?a (in_body F) (file_part req)"
      by blast
    note q = apply_update_request [OF r b]
    from q(1) have q1: "proj_id ?b = proj_id ?a" and q2: "createdAt ?b = createdAt ?a"
      by simp_all
    show ?thesis by (intro conjI) (rule q1 q2 q(2-9))+
  qed
  have only: "description ?b = description ?a \<and> tech ?b = tech ?a \<and> githubUrl ?b = githubUrl ?a
         \<and> demoUrl ?b = demoUrl ?a \<and> featured ?b = featured ?a \<and> order ?b = order ?a
         \<and> coverImage ?b = coverImage ?a"
    if h: "(\<forall>k. k \<noteq> ''title'' \<longrightarrow> body req k = JUndefined) \<and> file_part req = None"
  proof -
    from h have u: "body req ''description'' = JUndefined" "body req ''tech'' = JUndefined"
      "body req ''githubUrl'' = JUndefined" "body req ''demoUrl'' = JUndefined"
      "body req ''featured'' = JUndefined" "body req ''order'' = JUndefined"
      "file_part req = None"
      by simp_all
    from fields u show ?thesis by auto
  qed
  from len fields only show ?thesis by blast
qed

lemma test_token: "verifyToken test_deps (Some ''Bearer good'') = Inr (Own (JStr ''u1''))"
  by (simp add: verifyToken_def bearer_token_def starts_with_def test_deps_def secret_def
      decoded_prop_def js_get_def prop_or_def truthy_prop_def)

lemma test_find:
  "find (\<lambda>p. proj_id p = ''0123456789abcdef01234567'') (docs test_db) = Some test_project"
  by (simp add: test_db_def test_project_def)

text \<open>
  A request field of the wrong type can overwrite the stored field: \<open>tech: 5\<close> is
  normalized to the empty sequence by the update rules, and the handler stores it.
\<close>

theorem update_tech_wiped:
  "update_route test_deps
     (test_request\<lparr>authorization := Some ''Bearer good'', id_param := ''0123456789abcdef01234567'',
                    body := (\<lambda>k. JUndefined)(''tech'' := JNum 5)\<rparr>)
     test_db
   = (\<lparr>status = 200, payload = Doc (test_project\<lparr>tech := []\<rparr>)\<rparr>,
      \<lparr>docs = [test_project\<lparr>tech := []\<rparr>],
       calls = [Call_findById ''0123456789abcdef01234567'', Call_save ''0123456789abcdef01234567'']\<rparr>)
   \<and> tech test_project = [''x'']"
proof -
  let ?req = "test_request\<lparr>authorization := Some ''Bearer good'', id_param := ''0123456789abcdef01234567'',
                    body := (\<lambda>k. JUndefined)(''tech'' := JNum 5)\<rparr>"
  have "\<exists>F. run_rules test_deps updateRules (request_fields ?req) = Inr ([], F)"
    by (simp add: updateRules_def rule_eval test_request_def test_deps_def validator_isMongoId_def isHexadecimal_def is_hex_digit_def
        sanitize_tech_def)
  then obtain F where r: "run_rules test_deps updateRules (request_fields ?req) = Inr ([], F)"
    by blast
  then have fields: "in_body F ''title'' = JUndefined \<and> in_body F ''description'' = JUndefined
      \<and> in_body F ''tech'' = JArr [] \<and> in_body F ''githubUrl'' = JUndefined
      \<and> in_body F ''demoUrl'' = JUndefined \<and> in_body F ''featured'' = JUndefined
      \<and> in_body F ''order'' = JUndefined"
    by (auto simp: updateRules_def rule_eval test_request_def test_deps_def validator_isMongoId_def isHexadecimal_def is_hex_digit_def
        sanitize_tech_def)
  have ap: "apply_update test_project (in_body F) None = test_project\<lparr>tech := []\<rparr>"
    using fields by (simp add: apply_update_def merge_defs cast_tech_def)
  have "update_route test_deps ?req test_db
   = (\<lparr>status = 200, payload = Doc (test_project\<lparr>tech := []\<rparr>)\<rparr>,
      \<lparr>docs = [test_project\<lparr>tech := []\<rparr>],
       calls = [Call_findById ''0123456789abcdef01234567'', Call_save ''0123456789abcdef01234567'']\<rparr>)"
    using r ap test_token test_find
    by (simp add: update_route_def upload_single_def handleValidation_def db_findById_def lookup_def
        db_save_def logged_def test_request_def)
       (simp add: test_db_def test_project_def)
  then show ?thesis by (simp add: test_project_def)
qed

theorem update_merge_witness:
  "update_route test_deps
     (test_request\<lparr>authorization := Some ''Bearer good'', id_param := ''0123456789abcdef01234567'',
                    body := (\<lambda>k. JUndefined)(''title'' := JStr '' New '')\<rparr>)
     test_db
   = (\<lparr>status = 200, payload = Doc (test_project\<lparr>title := ''New''\<rparr>)\<rparr>,
      \<lparr>docs = [test_project\<lparr>title := ''New''\<rparr>],
       calls = [Call_findById ''0123456789abcdef01234567'', Call_save ''0123456789abcdef01234567'']\<rparr>)
   \<and> description (test_project\<lparr>title := ''New''\<rparr>) = description test_project
   \<and> tech (test_project\<lparr>title := ''New''\<rparr>) = tech test_project
   \<and> githubUrl (test_project\<lparr>title := ''New''\<rparr>) = githubUrl test_project
   \<and> demoUrl (test_project\<lparr>title := ''New''\<rparr>) = demoUrl test_project
   \<and> featured (test_project\<lparr>title := ''New''\<rparr>) = featured test_project
   \<and> order (test_project\<lparr>title := ''New''\<rparr>) = order test_project
   \<and> coverImage (test_project\<lparr>title := ''New''\<rparr>) = coverImage test_project"
proof -
  let ?req = "test_request\<lparr>authorization := Some ''Bearer good'', id_param := ''0123456789abcdef01234567'',
                    body := (\<lambda>k. JUndefined)(''title'' := JStr '' New '')\<rparr>"
  let ?d = "\<lparr>docs = [test_project\<lparr>title := ''New''\<rparr>],
       calls = [Call_findById ''0123456789abcdef01234567'', Call_save ''0123456789abcdef01234567'']\<rparr>"
  have "\<exists>F. run_rules test_deps updateRules (request_fields ?req) = Inr ([], F)"
    by (simp add: updateRules_def rule_eval test_request_def test_deps_def validator_isMongoId_def isHexadecimal_def is_hex_digit_def
        trim_def is_space_def)
  then obtain F where r: "run_rules test_deps updateRules (request_fields ?req) = Inr ([], F)"
    by blast
  then have fields: "in_body F ''title'' = JStr ''New'' \<and> in_body F ''description'' = JUndefined
      \<and> in_body F ''tech'' = JUndefined \<and> in_body F ''githubUrl'' = JUndefined
      \<and> in_body F ''demoUrl'' = JUndefined \<and> in_body F ''featured'' = JUndefined
      \<and> in_body F ''order'' = JUndefined"
    by (auto simp: updateRules_def rule_eval test_request_def test_deps_def validator_isMongoId_def isHexadecimal_def is_hex_digit_def
        trim_def is_space_def)
  have ap: "apply_update test_project (in_body F) None = test_project\<lparr>title := ''New''\<rparr>"
    using fields by (simp add: apply_update_def merge_defs trim_def is_space_def)
  have e: "update_route test_deps ?req test_db
      = (\<lparr>status = 200, payload = Doc (test_project\<lparr>title := ''New''\<rparr>)\<rparr>, ?d)"
    using r ap test_token test_find
    by (simp add: update_route_def upload_single_def handleValidation_def db_findById_def lookup_def
        db_save_def logged_def test_request_def)
       (simp add: test_db_def test_project_def)
  have dist: "distinct (map proj_id (docs test_db))" by (simp add: test_db_def)
  have i0: "0 < length (docs test_db)" by (simp add: test_db_def)
  have only: "(\<forall>k. k \<noteq> ''title'' \<longrightarrow> body ?req k = JUndefined) \<and> file_part ?req = None"
    by (simp add: test_request_def)
  from update_merge [OF e dist i0] only
  have "description (docs ?d ! 0) = description (docs test_db ! 0)
         \<and> tech (docs ?d ! 0) = tech (docs test_db ! 0)
         \<and> githubUrl (docs ?d ! 0) = githubUrl (docs test_db ! 0)
         \<and> demoUrl (docs ?d ! 0) = demoUrl (docs test_db ! 0)
         \<and> featured (docs ?d ! 0) = featured (docs test_db ! 0)
         \<and> order (docs ?d ! 0) = order (docs test_db ! 0)
         \<and> coverImage (docs ?d ! 0) = coverImage (docs test_db ! 0)"
    by blast
  then have "description (test_project\<lparr>title := ''New''\<rparr>) = description test_project
   \<and> tech (test_project\<lparr>title := ''New''\<rparr>) = tech test_project
   \<and> githubUrl (test_project\<lparr>title := ''New''\<rparr>) = githubUrl test_project
   \<and> demoUrl (test_project\<lparr>title := ''New''\<rparr>) = demoUrl test_project
   \<and> featured (test_project\<lparr>title := ''New''\<rparr>) = featured test_project
   \<and> order (test_project\<lparr>title := ''New''\<rparr>) = order test_project
   \<and> coverImage (test_project\<lparr>title := ''New''\<rparr>) = coverImage test_project"
    by (simp add: test_db_def)
  with e show ?thesis by blast
qed

end
